theory Spec2Isabelle
  imports Complex_Main
begin

section \<open>Python values used by the cash-flow engine\<close>

text \<open>
  Python floats are idealised: a finite float is a real number (no rounding, no signed
  zero, no largest float), and the three non-finite floats are values of their own, so
  that a comparison with \<open>math.inf\<close> or a division by zero is what IEEE arithmetic makes
  of it and not what HOL's total division would.
\<close>

datatype pyfloat = Fl real | PosInf | NegInf | NaN

text \<open>\<open>a <= b\<close> and \<open>a < b\<close> on floats; every comparison with NaN is false.\<close>

fun pf_le :: "pyfloat \<Rightarrow> pyfloat \<Rightarrow> bool" where
  "pf_le NaN b = False"
| "pf_le a NaN = False"
| "pf_le NegInf b = True"
| "pf_le a PosInf = True"
| "pf_le (Fl a) (Fl b) = (a \<le> b)"
| "pf_le PosInf b = False"
| "pf_le a NegInf = False"

fun pf_lt :: "pyfloat \<Rightarrow> pyfloat \<Rightarrow> bool" where
  "pf_lt NaN b = False"
| "pf_lt a NaN = False"
| "pf_lt PosInf b = False"
| "pf_lt a NegInf = False"
| "pf_lt (Fl a) (Fl b) = (a < b)"
| "pf_lt NegInf b = True"
| "pf_lt a PosInf = True"

text \<open>An integer year seen as a float, as the mixed comparisons of the source do.\<close>

definition of_year :: "int \<Rightarrow> pyfloat" where
  "of_year y = Fl (of_int y)"

text \<open>
  A Python number is an \<open>int\<close>, unbounded and exact, or a float. The two are kept apart:
  \<open>_checkCost\<close> stores an int as it is, Python's \<open>sum\<close> of ints is an int, and NumPy
  treats a list of ints differently from a list with a float in it.
\<close>

datatype pynum = PyInt int | PyFloat pyfloat

fun to_float :: "pynum \<Rightarrow> pyfloat" where
  "to_float (PyInt n) = Fl (of_int n)"
| "to_float (PyFloat x) = x"

datatype error =
    TypeError | ValueError | IndexError | AttributeError | UnboundLocalError
  | OverflowError | ZeroDivisionError

section \<open>random\_type.py: the three distributions\<close>

text \<open>
  The classes \<open>Gaussian\<close>, \<open>Constant\<close> and \<open>Pareto\<close> with their attributes. The attribute
  \<open>value\<close> of \<open>Constant\<close> is the selector \<open>val\<close>; it is the number the caller gave, an
  int or a float.
\<close>

datatype dist =
    Gaussian (mu: pyfloat) (sigma: pyfloat) (start_year: pyfloat) (end_year: pyfloat)
  | Constant (val: pynum) (start_year: pyfloat) (end_year: pyfloat)
  | Pareto (alpha: pyfloat) (start_year: pyfloat) (end_year: pyfloat)

text \<open>
  The module \<open>random\<close> is not part of the program: its two draws are parameters. A draw
  takes the generator's state and returns the next state with the float drawn, or with
  the exception the draw raised (\<open>random.paretovariate\<close> raises ZeroDivisionError for
  \<open>alpha = 0\<close> and OverflowError for a tiny \<open>alpha\<close>).
\<close>

record 'g random =
  gauss :: "pyfloat \<Rightarrow> pyfloat \<Rightarrow> 'g \<Rightarrow> (error + pyfloat) \<times> 'g"
  paretovariate :: "pyfloat \<Rightarrow> 'g \<Rightarrow> (error + pyfloat) \<times> 'g"

text \<open>The test \<open>year >= self.start_year and year <= self.end_year\<close>.\<close>

definition active :: "dist \<Rightarrow> int \<Rightarrow> bool" where
  "active d year = (pf_le (start_year d) (of_year year) \<and> pf_le (of_year year) (end_year d))"

text \<open>The float a draw returned, as the number that \<open>sample_value\<close> returns.\<close>

fun drawn :: "(error + pyfloat) \<times> 'g \<Rightarrow> (error + pynum) \<times> 'g" where
  "drawn (Inl e, g) = (Inl e, g)"
| "drawn (Inr x, g) = (Inr (PyFloat x), g)"

fun sample_value :: "'g random \<Rightarrow> dist \<Rightarrow> int \<Rightarrow> 'g \<Rightarrow> (error + pynum) \<times> 'g" where
  "sample_value R (Gaussian m s a b) year g =
     (if active (Gaussian m s a b) year then drawn (gauss R m s g)
      else (Inr (PyFloat (Fl 0)), g))"
| "sample_value R (Constant v a b) year g =
     (if active (Constant v a b) year then (Inr v, g) else (Inr (PyFloat (Fl 0)), g))"
| "sample_value R (Pareto al a b) year g =
     (if active (Pareto al a b) year then drawn (paretovariate R al g)
      else (Inr (PyFloat (Fl 0)), g))"

text \<open>
  A generator for examples. Its state counts the calls of \<open>random()\<close>; a Gaussian draw
  returns its mean, a Pareto draw returns 1 and, as \<open>random.paretovariate\<close> does, raises
  ZeroDivisionError for \<open>alpha = 0\<close> after its call of \<open>random()\<close>.
\<close>

definition counting :: "nat random" where
  "counting =
     \<lparr> gauss = (\<lambda>m s n. (Inr m, Suc n)),
       paretovariate =
         (\<lambda>al n. (if al = Fl 0 then Inl ZeroDivisionError else Inr (Fl 1), Suc n)) \<rparr>"

section \<open>Arithmetic on floats and on Python numbers\<close>

text \<open>
  Addition, absolute value, division and integer powers of floats. A finite value divided
  by zero is an infinity of the dividend's sign and zero by zero is NaN, as NumPy's scalars
  and arrays compute them (with a warning, without raising); the zero divisors of this
  program are positive zeros.
\<close>

fun pf_add :: "pyfloat \<Rightarrow> pyfloat \<Rightarrow> pyfloat" where
  "pf_add NaN b = NaN"
| "pf_add a NaN = NaN"
| "pf_add (Fl a) (Fl b) = Fl (a + b)"
| "pf_add PosInf NegInf = NaN"
| "pf_add NegInf PosInf = NaN"
| "pf_add PosInf b = PosInf"
| "pf_add a PosInf = PosInf"
| "pf_add NegInf b = NegInf"
| "pf_add a NegInf = NegInf"

fun pf_abs :: "pyfloat \<Rightarrow> pyfloat" where
  "pf_abs (Fl a) = Fl \<bar>a\<bar>"
| "pf_abs PosInf = PosInf"
| "pf_abs NegInf = PosInf"
| "pf_abs NaN = NaN"

fun pf_div :: "pyfloat \<Rightarrow> pyfloat \<Rightarrow> pyfloat" where
  "pf_div NaN b = NaN"
| "pf_div a NaN = NaN"
| "pf_div (Fl a) (Fl b) =
     (if b = 0 then (if a = 0 then NaN else if 0 < a then PosInf else NegInf)
      else Fl (a / b))"
| "pf_div (Fl a) b = Fl 0"
| "pf_div PosInf (Fl b) = (if 0 \<le> b then PosInf else NegInf)"
| "pf_div NegInf (Fl b) = (if 0 \<le> b then NegInf else PosInf)"
| "pf_div a b = NaN"

fun pf_pow :: "pyfloat \<Rightarrow> nat \<Rightarrow> pyfloat" where
  "pf_pow a 0 = Fl 1"
| "pf_pow (Fl a) n = Fl (a ^ n)"
| "pf_pow PosInf n = PosInf"
| "pf_pow NegInf n = (if even n then PosInf else NegInf)"
| "pf_pow NaN n = NaN"

text \<open>
  Python's \<open>a + b\<close>: exact on two ints, the float sum as soon as one operand is a float.
  \<open>sum(xs)\<close> is the fold of \<open>+\<close> from the int 0.
\<close>

fun py_add :: "pynum \<Rightarrow> pynum \<Rightarrow> pynum" where
  "py_add (PyInt a) (PyInt b) = PyInt (a + b)"
| "py_add a b = PyFloat (pf_add (to_float a) (to_float b))"

definition py_sum :: "pynum list \<Rightarrow> pynum" where
  "py_sum xs = foldl py_add (PyInt 0) xs"

text \<open>\<open>x > 0\<close> on a number.\<close>

fun py_positive :: "pynum \<Rightarrow> bool" where
  "py_positive (PyInt n) = (0 < n)"
| "py_positive (PyFloat x) = pf_lt (Fl 0) x"

section \<open>NumPy 1.x: arrays from lists, cumulative sums, net present value\<close>

text \<open>
  NumPy is not part of the program; this is NumPy 1.x (the last to have \<open>numpy.npv\<close> and
  \<open>numpy.irr\<close>) on a platform whose default integer has 64 bits.
  \<open>numpy.asarray\<close> gives a list of Python numbers the element type that holds them all: a float is a \<open>float64\<close>; an int is an \<open>int64\<close> when
  it fits, a \<open>uint64\<close> when it is from \<open>2^63\<close> to \<open>2^64 - 1\<close>, and a Python object
  otherwise; \<open>int64\<close> and \<open>uint64\<close> together, and either with \<open>float64\<close>, make
  \<open>float64\<close>; an object with anything makes an array of objects. The empty list is a
  \<open>float64\<close> array.
\<close>

datatype dtype = Int64 | UInt64 | Float64 | Object

definition in_int64 :: "int \<Rightarrow> bool" where
  "in_int64 n = (- (2 ^ 63) \<le> n \<and> n < 2 ^ 63)"

definition above_int64 :: "int \<Rightarrow> bool" where
  "above_int64 n = (2 ^ 63 \<le> n \<and> n < 2 ^ 64)"

fun scalar_dtype :: "pynum \<Rightarrow> dtype" where
  "scalar_dtype (PyFloat x) = Float64"
| "scalar_dtype (PyInt n) =
     (if in_int64 n then Int64 else if above_int64 n then UInt64 else Object)"

fun promote :: "dtype \<Rightarrow> dtype \<Rightarrow> dtype" where
  "promote Object b = Object"
| "promote a Object = Object"
| "promote Float64 b = Float64"
| "promote a Float64 = Float64"
| "promote Int64 Int64 = Int64"
| "promote UInt64 UInt64 = UInt64"
| "promote Int64 UInt64 = Float64"
| "promote UInt64 Int64 = Float64"

fun np_dtype :: "pynum list \<Rightarrow> dtype" where
  "np_dtype [] = Float64"
| "np_dtype [x] = scalar_dtype x"
| "np_dtype (x # y # ys) = promote (scalar_dtype x) (np_dtype (y # ys))"

text \<open>
  A value stored in an array of the element type: a 64-bit integer wraps around (two's
  complement for \<open>int64\<close>, modulo \<open>2^64\<close> for \<open>uint64\<close>), a number in a \<open>float64\<close> array is
  its float, an object is the Python number itself.
\<close>

definition wrap_int64 :: "int \<Rightarrow> int" where
  "wrap_int64 n = (n + 2 ^ 63) mod 2 ^ 64 - 2 ^ 63"

fun cast :: "dtype \<Rightarrow> pynum \<Rightarrow> pynum" where
  "cast Int64 (PyInt n) = PyInt (wrap_int64 n)"
| "cast UInt64 (PyInt n) = PyInt (n mod 2 ^ 64)"
| "cast Float64 v = PyFloat (to_float v)"
| "cast dt v = v"

text \<open>
  \<open>list(numpy.cumsum(xs))\<close>: the running sums, accumulated in the element type of the
  array, so that the running sums of ints wrap around where they leave the 64 bits.
\<close>

fun accumulate :: "dtype \<Rightarrow> pynum \<Rightarrow> pynum list \<Rightarrow> pynum list" where
  "accumulate dt acc [] = []"
| "accumulate dt acc (x # xs) =
     cast dt (py_add acc x) # accumulate dt (cast dt (py_add acc x)) xs"

definition cumsum :: "pynum list \<Rightarrow> pynum list" where
  "cumsum xs = accumulate (np_dtype xs) (PyInt 0) xs"

text \<open>
  Where the element type is \<open>float64\<close>, and where it is \<open>int64\<close> and none of Python's
  running sums leaves the 64 bits, nothing wraps around in the cumulative sums.
\<close>

definition exact_sums :: "pynum list \<Rightarrow> bool" where
  "exact_sums ncf =
     (np_dtype ncf = Float64
      \<or> (np_dtype ncf = Int64
          \<and> list_all (\<lambda>i. scalar_dtype (py_sum (take (Suc i) ncf)) = Int64) [0..<length ncf]))"

text \<open>
  \<open>c / n\<close> where \<open>c\<close> is an element of the cumulative sums and \<open>n\<close> a Python number: NumPy's
  division when \<open>c\<close> is a NumPy scalar, and Python's own division, which raises
  ZeroDivisionError on a zero divisor, when the array holds Python objects.
\<close>

definition true_divide :: "dtype \<Rightarrow> pynum \<Rightarrow> pynum \<Rightarrow> error + pyfloat" where
  "true_divide dt c n =
     (if dt = Object \<and> to_float n = Fl 0 then Inl ZeroDivisionError
      else Inr (pf_div (to_float c) (to_float n)))"

text \<open>
  \<open>xs[i]\<close> on a Python list: an index from \<open>-len(xs)\<close> to \<open>-1\<close> counts from the end,
  and an index outside \<open>-len(xs) .. len(xs)-1\<close> raises IndexError.
\<close>

definition py_index :: "'a list \<Rightarrow> int \<Rightarrow> error + 'a" where
  "py_index xs i =
     (if 0 \<le> i \<and> i < int (length xs) then Inr (xs ! nat i)
      else if i < 0 \<and> - int (length xs) \<le> i then Inr (xs ! nat (int (length xs) + i))
      else Inl IndexError)"

text \<open>\<open>range(a, b)\<close>.\<close>

definition py_range :: "int \<Rightarrow> int \<Rightarrow> int list" where
  "py_range a b = [a..b - 1]"

text \<open>
  \<open>numpy.npv(rate, values)\<close>, which NumPy defines as
  \<open>(values / (1+rate)**np.arange(0, len(values))).sum(axis=0)\<close>: the division by the
  float powers makes floats of the values, whatever the element type of their array.
\<close>

definition np_sum :: "pyfloat list \<Rightarrow> pyfloat" where
  "np_sum xs = foldl pf_add (Fl 0) xs"

definition npv :: "pyfloat \<Rightarrow> pynum list \<Rightarrow> pyfloat" where
  "npv rate values =
     np_sum (map (\<lambda>t. pf_div (to_float (values ! t)) (pf_pow (pf_add (Fl 1) rate) t))
       [0..<length values])"

section \<open>cash\_flow.py: items, groups and sheets\<close>

text \<open>
  A Python string of the program is a literal or the \<open>str\<close> of a number: \<open>StrFloat x\<close>
  stands for \<open>str(x)\<close> and \<open>StrInt n\<close> for \<open>str(n)\<close>, which \<open>float\<close> reads back as the
  number printed. \<open>Lit s\<close> is a text that is not a numeric literal. A name or a text that
  may be Python's \<open>None\<close> is an option.
\<close>

datatype pystr = Lit string | StrFloat pyfloat | StrInt int

type_synonym pytext = "pystr option"

record item =
  item_name :: pytext
  item_desc :: pytext
  upfront_cost :: dist
  recurring_cost :: dist

record group =
  group_name :: pytext
  group_desc :: pytext
  items :: "item list"

record sheet =
  groups :: "group list"

text \<open>The values a caller can pass as a cost.\<close>

datatype pyval = VRandom dist | VFloat pyfloat | VInt int | VBool bool | VStr pystr | VNone

text \<open>
  \<open>CashFlowItem._checkCost\<close>. \<open>isinstance(cost, (float, int))\<close> holds of a float, of an
  int and of a bool, which is a subclass of int in Python; the number is stored as it is,
  an int as an int, and a bool counts as the int it equals.
\<close>

fun checkCost :: "pyval \<Rightarrow> error + dist" where
  "checkCost (VRandom d) = Inr d"
| "checkCost (VFloat x) = Inr (Constant (PyFloat x) (Fl 0) PosInf)"
| "checkCost (VInt n) = Inr (Constant (PyInt n) (Fl 0) PosInf)"
| "checkCost (VBool b) = Inr (Constant (PyInt (if b then 1 else 0)) (Fl 0) PosInf)"
| "checkCost (VStr s) = Inl TypeError"
| "checkCost VNone = Inl TypeError"

text \<open>
  The setters of \<open>upfront_cost\<close> and \<open>recurring_cost\<close>: the outcome of the assignment
  (\<open>None\<close> when it returns, the exception when it raises) and the item after it.
\<close>

definition set_upfront_cost :: "item \<Rightarrow> pyval \<Rightarrow> error option \<times> item" where
  "set_upfront_cost it c =
     (case checkCost c of
        Inl e \<Rightarrow> (Some e, it)
      | Inr d \<Rightarrow> (None, it\<lparr>upfront_cost := d\<rparr>))"

definition set_recurring_cost :: "item \<Rightarrow> pyval \<Rightarrow> error option \<times> item" where
  "set_recurring_cost it c =
     (case checkCost c of
        Inl e \<Rightarrow> (Some e, it)
      | Inr d \<Rightarrow> (None, it\<lparr>recurring_cost := d\<rparr>))"

text \<open>\<open>CashFlowItem.__init__\<close>: the two costs go through their setters, in this order.\<close>

definition CashFlowItem_init :: "pytext \<Rightarrow> pytext \<Rightarrow> pyval \<Rightarrow> pyval \<Rightarrow> error + item" where
  "CashFlowItem_init n d up rc =
     (case checkCost up of
        Inl e \<Rightarrow> Inl e
      | Inr u \<Rightarrow>
          (case checkCost rc of
             Inl e \<Rightarrow> Inl e
           | Inr r \<Rightarrow>
               Inr \<lparr>item_name = n, item_desc = d, upfront_cost = u, recurring_cost = r\<rparr>))"

text \<open>
  The argument of \<open>add_items\<close> and \<open>add_groups\<close>: one instance, an iterable whose elements
  are instances or something else (\<open>None\<close> here), or a value that is not iterable.
\<close>

datatype 'a pyarg = Single 'a | Many "'a option list" | NotIterable

fun all_instances :: "'a option list \<Rightarrow> error + 'a list" where
  "all_instances [] = Inr []"
| "all_instances (None # xs) = Inl TypeError"
| "all_instances (Some x # xs) =
     (case all_instances xs of Inl e \<Rightarrow> Inl e | Inr ys \<Rightarrow> Inr (x # ys))"

fun check_items :: "item pyarg \<Rightarrow> error + item list" where
  "check_items (Single x) = Inr [x]"
| "check_items (Many xs) = all_instances xs"
| "check_items NotIterable = Inl TypeError"

fun check_groups :: "group pyarg \<Rightarrow> error + group list" where
  "check_groups (Single x) = Inr [x]"
| "check_groups (Many xs) = all_instances xs"
| "check_groups NotIterable = Inl TypeError"

text \<open>
  \<open>add_items\<close> and the setter of \<open>items\<close>, which empties the list and then adds; when the
  check raises, the setter has already emptied the list.
\<close>

definition add_items :: "group \<Rightarrow> item pyarg \<Rightarrow> error option \<times> group" where
  "add_items grp arg =
     (case check_items arg of
        Inl e \<Rightarrow> (Some e, grp)
      | Inr xs \<Rightarrow> (None, grp\<lparr>items := items grp @ xs\<rparr>))"

definition set_items :: "group \<Rightarrow> item pyarg \<Rightarrow> error option \<times> group" where
  "set_items grp arg = add_items (grp\<lparr>items := []\<rparr>) arg"

definition get_items :: "group \<Rightarrow> pytext list \<Rightarrow> item list" where
  "get_items grp item_names = filter (\<lambda>it. item_name it \<in> set item_names) (items grp)"

definition remove_items :: "group \<Rightarrow> pytext list \<Rightarrow> error option \<times> group" where
  "remove_items grp item_names =
     set_items grp
       (Many (map Some (filter (\<lambda>it. item_name it \<notin> set item_names) (items grp))))"

definition add_groups :: "sheet \<Rightarrow> group pyarg \<Rightarrow> error option \<times> sheet" where
  "add_groups sh arg =
     (case check_groups arg of
        Inl e \<Rightarrow> (Some e, sh)
      | Inr xs \<Rightarrow> (None, sh\<lparr>groups := groups sh @ xs\<rparr>))"

definition set_groups :: "sheet \<Rightarrow> group pyarg \<Rightarrow> error option \<times> sheet" where
  "set_groups sh arg = add_groups (sh\<lparr>groups := []\<rparr>) arg"

definition get_groups :: "sheet \<Rightarrow> pytext list \<Rightarrow> group list" where
  "get_groups sh group_names = filter (\<lambda>gr. group_name gr \<in> set group_names) (groups sh)"

definition remove_groups :: "sheet \<Rightarrow> pytext list \<Rightarrow> error option \<times> sheet" where
  "remove_groups sh group_names =
     set_groups sh
       (Many (map Some (filter (\<lambda>gr. group_name gr \<notin> set group_names) (groups sh))))"

text \<open>
  The constructors of a group and of a sheet assign their collection through the setter.
\<close>

definition CashFlowGroup_init :: "pytext \<Rightarrow> pytext \<Rightarrow> item pyarg \<Rightarrow> error + group" where
  "CashFlowGroup_init n d arg =
     (case set_items \<lparr>group_name = n, group_desc = d, items = []\<rparr> arg of
        (Some e, grp) \<Rightarrow> Inl e
      | (None, grp) \<Rightarrow> Inr grp)"

definition CashFlowSheet_init :: "group pyarg \<Rightarrow> error + sheet" where
  "CashFlowSheet_init arg =
     (case set_groups \<lparr>groups = []\<rparr> arg of
        (Some e, sh) \<Rightarrow> Inl e
      | (None, sh) \<Rightarrow> Inr sh)"

section \<open>Sampling a sheet\<close>

text \<open>
  A list comprehension whose body draws: the generator's state goes through the elements
  from left to right, and the first exception ends the comprehension.
\<close>

fun map_draw ::
  "('a \<Rightarrow> 'g \<Rightarrow> (error + 'b) \<times> 'g) \<Rightarrow> 'a list \<Rightarrow> 'g \<Rightarrow> (error + 'b list) \<times> 'g" where
  "map_draw f [] g = (Inr [], g)"
| "map_draw f (x # xs) g =
     (case f x g of
        (Inl e, g1) \<Rightarrow> (Inl e, g1)
      | (Inr y, g1) \<Rightarrow>
          (case map_draw f xs g1 of
             (Inl e, g2) \<Rightarrow> (Inl e, g2)
           | (Inr ys, g2) \<Rightarrow> (Inr (y # ys), g2)))"

definition item_get_upfront_cost :: "'g random \<Rightarrow> item \<Rightarrow> 'g \<Rightarrow> (error + pynum) \<times> 'g" where
  "item_get_upfront_cost R it g = sample_value R (upfront_cost it) 0 g"

definition item_get_recurring_cost ::
  "'g random \<Rightarrow> int \<Rightarrow> item \<Rightarrow> 'g \<Rightarrow> (error + pynum) \<times> 'g" where
  "item_get_recurring_cost R year it g = sample_value R (recurring_cost it) year g"

definition group_get_upfront_cost ::
  "'g random \<Rightarrow> group \<Rightarrow> 'g \<Rightarrow> (error + pynum list) \<times> 'g" where
  "group_get_upfront_cost R grp g = map_draw (item_get_upfront_cost R) (items grp) g"

definition group_get_recurring_cost ::
  "'g random \<Rightarrow> int \<Rightarrow> group \<Rightarrow> 'g \<Rightarrow> (error + pynum list) \<times> 'g" where
  "group_get_recurring_cost R year grp g =
     map_draw (item_get_recurring_cost R year) (items grp) g"

definition get_upfront_cost ::
  "'g random \<Rightarrow> sheet \<Rightarrow> 'g \<Rightarrow> (error + pynum list list) \<times> 'g" where
  "get_upfront_cost R sh g = map_draw (group_get_upfront_cost R) (groups sh) g"

definition get_recurring_cost ::
  "'g random \<Rightarrow> sheet \<Rightarrow> int \<Rightarrow> 'g \<Rightarrow> (error + pynum list list) \<times> 'g" where
  "get_recurring_cost R sh year g = map_draw (group_get_recurring_cost R year) (groups sh) g"

text \<open>
  \<open>CashFlowSheet.get_cash_flow\<close>: year 0 holds the upfront costs, the years
  \<open>1 .. years\<close> the recurring costs; the net flow of a year is the sum of its sums.
\<close>

definition get_cash_flow ::
  "'g random \<Rightarrow> sheet \<Rightarrow> int \<Rightarrow> 'g \<Rightarrow>
     (error + pynum list list list \<times> pynum list) \<times> 'g" where
  "get_cash_flow R sh yrs g =
     (case get_upfront_cost R sh g of
        (Inl e, g1) \<Rightarrow> (Inl e, g1)
      | (Inr up, g1) \<Rightarrow>
          (case map_draw (get_recurring_cost R sh) (py_range 1 (yrs + 1)) g1 of
             (Inl e, g2) \<Rightarrow> (Inl e, g2)
           | (Inr rc, g2) \<Rightarrow>
               (Inr (up # rc, map (\<lambda>year. py_sum (map py_sum year)) (up # rc)), g2)))"

text \<open>Examples: an item with constant costs, and a group of three with a repeated name.\<close>

definition named_item :: "string \<Rightarrow> real \<Rightarrow> item" where
  "named_item n u =
     \<lparr>item_name = Some (Lit n), item_desc = Some (Lit ''''),
      upfront_cost = Constant (PyFloat (Fl u)) (Fl 0) PosInf,
      recurring_cost = Constant (PyFloat (Fl 0)) (Fl 0) PosInf\<rparr>"

definition three_items :: group where
  "three_items =
     \<lparr>group_name = Some (Lit ''plant''), group_desc = Some (Lit ''all machines''),
      items = [named_item ''lathe'' 10, named_item ''press'' 20, named_item ''lathe'' 30]\<rparr>"

section \<open>cash\_flow.py: the summary and its metrics\<close>

text \<open>
  The attributes \<open>_total_cash_flow\<close> and \<open>_net_cash_flow\<close> do not exist before the first
  sampling: they are \<open>None\<close> until then, and reading a missing attribute raises
  AttributeError.
\<close>

record summary =
  cash_flow_sheet :: sheet
  interest_rate :: pyfloat
  years :: int
  iterations :: int
  sampled :: bool
  cached_total_cash_flow :: "pynum list list list option"
  cached_net_cash_flow :: "pynum list option"

definition Summary_init :: "sheet \<Rightarrow> pyfloat \<Rightarrow> int \<Rightarrow> int \<Rightarrow> summary" where
  "Summary_init sh rate yrs iters =
     \<lparr>cash_flow_sheet = sh, interest_rate = rate, years = yrs, iterations = iters,
      sampled = False, cached_total_cash_flow = None, cached_net_cash_flow = None\<rparr>"

text \<open>
  \<open>sample_cash_flow\<close>: the outcome (\<open>None\<close> when it returns, the exception when a draw
  raises), the summary and the generator after the call. The three assignments come after
  the sampling, so an exception leaves the summary as it was.
\<close>

definition sample_cash_flow :: "'g random \<Rightarrow> summary \<Rightarrow> 'g \<Rightarrow> error option \<times> summary \<times> 'g" where
  "sample_cash_flow R s g =
     (case get_cash_flow R (cash_flow_sheet s) (years s) g of
        (Inl e, g1) \<Rightarrow> (Some e, s, g1)
      | (Inr (tcf, ncf), g1) \<Rightarrow>
          (None,
           s\<lparr>cached_total_cash_flow := Some tcf, cached_net_cash_flow := Some ncf,
             sampled := True\<rparr>, g1))"

text \<open>The guard \<open>if not self.sampled: self.sample_cash_flow()\<close>.\<close>

definition ensure_sampled :: "'g random \<Rightarrow> summary \<Rightarrow> 'g \<Rightarrow> error option \<times> summary \<times> 'g" where
  "ensure_sampled R s g = (if \<not> sampled s then sample_cash_flow R s g else (None, s, g))"

definition read_attr :: "'a option \<Rightarrow> error + 'a" where
  "read_attr a = (case a of None \<Rightarrow> Inl AttributeError | Some v \<Rightarrow> Inr v)"

text \<open>
  The properties \<open>total_cash_flow\<close> and \<open>net_cash_flow\<close>: the value read (or the
  exception), the summary and the generator's state after the read.
\<close>

definition total_cash_flow ::
  "'g random \<Rightarrow> summary \<Rightarrow> 'g \<Rightarrow> (error + pynum list list list) \<times> summary \<times> 'g" where
  "total_cash_flow R s g =
     (case ensure_sampled R s g of
        (Some e, s1, g1) \<Rightarrow> (Inl e, s1, g1)
      | (None, s1, g1) \<Rightarrow> (read_attr (cached_total_cash_flow s1), s1, g1))"

definition net_cash_flow ::
  "'g random \<Rightarrow> summary \<Rightarrow> 'g \<Rightarrow> (error + pynum list) \<times> summary \<times> 'g" where
  "net_cash_flow R s g =
     (case ensure_sampled R s g of
        (Some e, s1, g1) \<Rightarrow> (Inl e, s1, g1)
      | (None, s1, g1) \<Rightarrow> (read_attr (cached_net_cash_flow s1), s1, g1))"

text \<open>
  \<open>get_IRR\<close> and \<open>get_NPV\<close> sample when needed and then read the property
  \<open>net_cash_flow\<close>. \<open>numpy.irr\<close> is a parameter.
\<close>

definition get_IRR ::
  "(pynum list \<Rightarrow> pyfloat) \<Rightarrow> 'g random \<Rightarrow> summary \<Rightarrow> 'g \<Rightarrow> (error + pyfloat) \<times> summary \<times> 'g"
  where
  "get_IRR irr R s g =
     (case ensure_sampled R s g of
        (Some e, s1, g1) \<Rightarrow> (Inl e, s1, g1)
      | (None, s1, g1) \<Rightarrow>
          (case net_cash_flow R s1 g1 of
             (Inl e, s2, g2) \<Rightarrow> (Inl e, s2, g2)
           | (Inr ncf, s2, g2) \<Rightarrow> (Inr (irr ncf), s2, g2)))"

definition get_NPV ::
  "'g random \<Rightarrow> summary \<Rightarrow> 'g \<Rightarrow> (error + pyfloat) \<times> summary \<times> 'g" where
  "get_NPV R s g =
     (case ensure_sampled R s g of
        (Some e, s1, g1) \<Rightarrow> (Inl e, s1, g1)
      | (None, s1, g1) \<Rightarrow>
          (case net_cash_flow R s1 g1 of
             (Inl e, s2, g2) \<Rightarrow> (Inl e, s2, g2)
           | (Inr ncf, s2, g2) \<Rightarrow> (Inr (npv (interest_rate s2) ncf), s2, g2)))"

text \<open>
  The loop of \<open>get_payback_period\<close> over \<open>range(self.years)\<close>: the first year whose
  cumulative flow is positive, and the value set before the loop when it never breaks.
\<close>

fun first_positive :: "pynum list \<Rightarrow> int list \<Rightarrow> int \<Rightarrow> error + int" where
  "first_positive cs [] first_positive_year = Inr first_positive_year"
| "first_positive cs (year # rest) first_positive_year =
     (case py_index cs year of
        Inl e \<Rightarrow> Inl e
      | Inr c \<Rightarrow> if py_positive c then Inr year else first_positive cs rest first_positive_year)"

text \<open>The body of \<open>get_payback_period\<close> on the net cash flow read from the property.\<close>

definition payback_period :: "int \<Rightarrow> pynum list \<Rightarrow> error + pyfloat" where
  "payback_period yrs ncf =
     (case first_positive (cumsum ncf) (py_range 0 yrs) yrs of
        Inl e \<Rightarrow> Inl e
      | Inr first_positive_year \<Rightarrow>
          (case py_index (cumsum ncf) (first_positive_year - 1) of
             Inl e \<Rightarrow> Inl e
           | Inr c \<Rightarrow>
               (case py_index ncf first_positive_year of
                  Inl e \<Rightarrow> Inl e
                | Inr n \<Rightarrow>
                    (case true_divide (np_dtype ncf) c n of
                       Inl e \<Rightarrow> Inl e
                     | Inr q \<Rightarrow>
                         Inr (pf_add (of_year (first_positive_year - 1)) (pf_abs q))))))"

definition get_payback_period ::
  "'g random \<Rightarrow> summary \<Rightarrow> 'g \<Rightarrow> (error + pyfloat) \<times> summary \<times> 'g" where
  "get_payback_period R s g =
     (case ensure_sampled R s g of
        (Some e, s1, g1) \<Rightarrow> (Inl e, s1, g1)
      | (None, s1, g1) \<Rightarrow>
          (case net_cash_flow R s1 g1 of
             (Inl e, s2, g2) \<Rightarrow> (Inl e, s2, g2)
           | (Inr ncf, s2, g2) \<Rightarrow> (payback_period (years s2) ncf, s2, g2)))"

text \<open>
  Examples: a sheet with one group holding one item whose costs are constants with the
  default interval, the costs being floats or ints, and summaries over such a sheet as
  the constructor leaves them.
\<close>

definition one_item_sheet :: "dist \<Rightarrow> dist \<Rightarrow> sheet" where
  "one_item_sheet up rc =
     \<lparr>groups = [\<lparr>group_name = Some (Lit ''plant''), group_desc = Some (Lit ''''),
        items = [\<lparr>item_name = Some (Lit ''machine''), item_desc = Some (Lit ''''),
          upfront_cost = up, recurring_cost = rc\<rparr>]\<rparr>]\<rparr>"

definition constant_sheet :: "real \<Rightarrow> real \<Rightarrow> sheet" where
  "constant_sheet u r =
     one_item_sheet (Constant (PyFloat (Fl u)) (Fl 0) PosInf)
       (Constant (PyFloat (Fl r)) (Fl 0) PosInf)"

definition constant_summary :: "real \<Rightarrow> real \<Rightarrow> int \<Rightarrow> summary" where
  "constant_summary u r yrs = Summary_init (constant_sheet u r) (Fl (1 / 10)) yrs 10000"

definition int_summary :: "int \<Rightarrow> int \<Rightarrow> int \<Rightarrow> summary" where
  "int_summary u r yrs =
     Summary_init
       (one_item_sheet (Constant (PyInt u) (Fl 0) PosInf) (Constant (PyInt r) (Fl 0) PosInf))
       (Fl (1 / 10)) yrs 10000"

definition gaussian_summary :: summary where
  "gaussian_summary =
     Summary_init
       (one_item_sheet (Gaussian (Fl (- 100)) (Fl 5) (Fl 0) PosInf)
          (Gaussian (Fl 30) (Fl 3) (Fl 0) PosInf))
       (Fl (1 / 10)) 2 10000"

definition pareto_zero_summary :: summary where
  "pareto_zero_summary =
     Summary_init
       (one_item_sheet (Constant (PyFloat (Fl (- 100))) (Fl 0) PosInf)
          (Pareto (Fl 0) (Fl 0) PosInf))
       (Fl (1 / 10)) 2 10000"

section \<open>Elements of a document\<close>

text \<open>
  An \<open>lxml\<close> element as far as the program uses it: its tag, its text (\<open>None\<close> when it
  has none) and its child elements in order.
\<close>

datatype element = Element (el_tag: string) (el_text: pytext) (el_children: "element list")

text \<open>\<open>e.find(t)\<close>, the first child with the tag or \<open>None\<close>, and \<open>e.findall(t)\<close>.\<close>

definition el_find :: "element \<Rightarrow> string \<Rightarrow> element option" where
  "el_find e t = List.find (\<lambda>c. el_tag c = t) (el_children e)"

definition el_findall :: "element \<Rightarrow> string \<Rightarrow> element list" where
  "el_findall e t = filter (\<lambda>c. el_tag c = t) (el_children e)"

text \<open>\<open>e.find(t).text\<close>: the attribute \<open>text\<close> of \<open>None\<close> raises AttributeError.\<close>

definition find_text :: "element \<Rightarrow> string \<Rightarrow> error + pytext" where
  "find_text e t = (case el_find e t of None \<Rightarrow> Inl AttributeError | Some c \<Rightarrow> Inr (el_text c))"

text \<open>
  \<open>float(x)\<close>: TypeError on \<open>None\<close>, ValueError on a text that is not a number (the empty
  string is one), and the number printed otherwise.
\<close>

fun py_float :: "pytext \<Rightarrow> error + pyfloat" where
  "py_float None = Inl TypeError"
| "py_float (Some (Lit s)) = Inl ValueError"
| "py_float (Some (StrFloat x)) = Inr x"
| "py_float (Some (StrInt n)) = Inr (Fl (of_int n))"

text \<open>\<open>math.floor\<close> of a float.\<close>

fun py_floor :: "pyfloat \<Rightarrow> error + int" where
  "py_floor (Fl x) = Inr \<lfloor>x\<rfloor>"
| "py_floor NaN = Inl ValueError"
| "py_floor PosInf = Inl OverflowError"
| "py_floor NegInf = Inl OverflowError"

text \<open>Sequencing: the first exception raised ends the evaluation.\<close>

definition then_do :: "error + 'a \<Rightarrow> ('a \<Rightarrow> error + 'b) \<Rightarrow> error + 'b" where
  "then_do m f = (case m of Inl e \<Rightarrow> Inl e | Inr a \<Rightarrow> f a)"

fun map_raising :: "('a \<Rightarrow> error + 'b) \<Rightarrow> 'a list \<Rightarrow> error + 'b list" where
  "map_raising f [] = Inr []"
| "map_raising f (x # xs) =
     then_do (f x) (\<lambda>y. then_do (map_raising f xs) (\<lambda>ys. Inr (y # ys)))"

section \<open>random\_type.py: reading and writing a distribution\<close>

definition value_or_default :: "pytext \<Rightarrow> pyfloat \<Rightarrow> error + pyfloat" where
  "value_or_default v dflt = (if v = None then Inr dflt else py_float v)"

text \<open>\<open>value == compare_to\<close> on floats: NaN equals nothing.\<close>

definition pf_eq :: "pyfloat \<Rightarrow> pyfloat \<Rightarrow> bool" where
  "pf_eq a b = (a \<noteq> NaN \<and> a = b)"

definition value_or_empty :: "pyfloat \<Rightarrow> pyfloat \<Rightarrow> pystr" where
  "value_or_empty v compare_to = (if pf_eq v compare_to then Lit '''' else StrFloat v)"

definition Gaussian_create_from_etree_element :: "element \<Rightarrow> error + dist" where
  "Gaussian_create_from_etree_element e =
     then_do (find_text e ''mu'') (\<lambda>t1. then_do (py_float t1) (\<lambda>m.
     then_do (find_text e ''sigma'') (\<lambda>t2. then_do (py_float t2) (\<lambda>s.
     then_do (find_text e ''startYear'') (\<lambda>t3. then_do (value_or_default t3 (Fl 0)) (\<lambda>a.
     then_do (find_text e ''endYear'') (\<lambda>t4. then_do (value_or_default t4 PosInf) (\<lambda>b.
     Inr (Gaussian m s a b)))))))))"

definition Constant_create_from_etree_element :: "element \<Rightarrow> error + dist" where
  "Constant_create_from_etree_element e =
     then_do (find_text e ''value'') (\<lambda>t1. then_do (py_float t1) (\<lambda>v.
     then_do (find_text e ''startYear'') (\<lambda>t3. then_do (value_or_default t3 (Fl 0)) (\<lambda>a.
     then_do (find_text e ''endYear'') (\<lambda>t4. then_do (value_or_default t4 PosInf) (\<lambda>b.
     Inr (Constant (PyFloat v) a b)))))))"

definition Pareto_create_from_etree_element :: "element \<Rightarrow> error + dist" where
  "Pareto_create_from_etree_element e =
     then_do (find_text e ''alpha'') (\<lambda>t1. then_do (py_float t1) (\<lambda>al.
     then_do (find_text e ''startYear'') (\<lambda>t3. then_do (value_or_default t3 (Fl 0)) (\<lambda>a.
     then_do (find_text e ''endYear'') (\<lambda>t4. then_do (value_or_default t4 PosInf) (\<lambda>b.
     Inr (Pareto al a b)))))))"

text \<open>
  The function \<open>create_from_etree_element\<close> of the module: an \<open>if\<close>/\<open>elif\<close> chain over the
  three tags with no \<open>else\<close>, so that for any other tag the function ends without a
  \<open>return\<close> and the call returns \<open>None\<close>. The result is \<open>Some\<close> distribution or that \<open>None\<close>.
\<close>

definition create_from_etree_element :: "element \<Rightarrow> error + dist option" where
  "create_from_etree_element e =
     (if el_tag e = ''Gaussian'' then
        then_do (Gaussian_create_from_etree_element e) (\<lambda>d. Inr (Some d))
      else if el_tag e = ''Constant'' then
        then_do (Constant_create_from_etree_element e) (\<lambda>d. Inr (Some d))
      else if el_tag e = ''Pareto'' then
        then_do (Pareto_create_from_etree_element e) (\<lambda>d. Inr (Some d))
      else Inr None)"

text \<open>\<open>str(v)\<close> of a number.\<close>

fun py_str :: "pynum \<Rightarrow> pystr" where
  "py_str (PyInt n) = StrInt n"
| "py_str (PyFloat x) = StrFloat x"

definition bound_elements :: "pyfloat \<Rightarrow> pyfloat \<Rightarrow> element list" where
  "bound_elements a b =
     [Element ''startYear'' (Some (value_or_empty a (Fl 0))) [],
      Element ''endYear'' (Some (value_or_empty b PosInf)) []]"

fun generate_etree_element :: "dist \<Rightarrow> element" where
  "generate_etree_element (Gaussian m s a b) =
     Element ''Gaussian'' None
       (Element ''mu'' (Some (StrFloat m)) [] # Element ''sigma'' (Some (StrFloat s)) []
          # bound_elements a b)"
| "generate_etree_element (Constant v a b) =
     Element ''Constant'' None (Element ''value'' (Some (py_str v)) [] # bound_elements a b)"
| "generate_etree_element (Pareto al a b) =
     Element ''Pareto'' None (Element ''alpha'' (Some (StrFloat al)) [] # bound_elements a b)"

section \<open>cash\_flow.py: reading and writing the hierarchy\<close>

text \<open>
  The loop \<open>for random_type_element in etree_element.find(...)\<close> of
  \<open>CashFlowItem.create_from_etree_element\<close>: the variable keeps what the last child gave.
  It is unbound (\<open>None\<close> here) when there is no child; iterating over \<open>None\<close>, when the
  cost element is missing, raises TypeError.
\<close>

fun last_created :: "element list \<Rightarrow> dist option option \<Rightarrow> error + dist option option" where
  "last_created [] v = Inr v"
| "last_created (c # cs) v =
     then_do (create_from_etree_element c) (\<lambda>d. last_created cs (Some d))"

definition cost_of :: "element \<Rightarrow> string \<Rightarrow> error + dist option option" where
  "cost_of e t =
     (case el_find e t of
        None \<Rightarrow> Inl TypeError
      | Some c \<Rightarrow> last_created (el_children c) None)"

text \<open>Reading the local variable: UnboundLocalError when the loop never assigned it.\<close>

fun read_local :: "dist option option \<Rightarrow> error + pyval" where
  "read_local None = Inl UnboundLocalError"
| "read_local (Some None) = Inr VNone"
| "read_local (Some (Some d)) = Inr (VRandom d)"

definition or_empty :: "pytext \<Rightarrow> pytext" where
  "or_empty d = (if d = None then Some (Lit '''') else d)"

definition CashFlowItem_create_from_etree_element :: "element \<Rightarrow> error + item" where
  "CashFlowItem_create_from_etree_element e =
     then_do (find_text e ''name'') (\<lambda>n.
     then_do (find_text e ''desc'') (\<lambda>d.
     then_do (cost_of e ''upfrontCost'') (\<lambda>u.
     then_do (cost_of e ''recurringCost'') (\<lambda>r.
     then_do (read_local u) (\<lambda>up.
     then_do (read_local r) (\<lambda>rc.
     CashFlowItem_init n (or_empty d) up rc))))))"

definition CashFlowItem_generate_etree_element :: "item \<Rightarrow> element" where
  "CashFlowItem_generate_etree_element it =
     Element ''CashFlowItem'' None
       [Element ''name'' (item_name it) [],
        Element ''desc'' (item_desc it) [],
        Element ''upfrontCost'' None [generate_etree_element (upfront_cost it)],
        Element ''recurringCost'' None [generate_etree_element (recurring_cost it)]]"

definition CashFlowGroup_create_from_etree_element :: "element \<Rightarrow> error + group" where
  "CashFlowGroup_create_from_etree_element e =
     then_do (find_text e ''name'') (\<lambda>n.
     then_do (find_text e ''desc'') (\<lambda>d.
     then_do (map_raising CashFlowItem_create_from_etree_element (el_findall e ''CashFlowItem''))
       (\<lambda>its. CashFlowGroup_init n (or_empty d) (Many (map Some its)))))"

definition CashFlowGroup_generate_etree_element :: "group \<Rightarrow> element" where
  "CashFlowGroup_generate_etree_element grp =
     Element ''CashFlowGroup'' None
       (Element ''name'' (group_name grp) [] # Element ''desc'' (group_desc grp) []
          # map CashFlowItem_generate_etree_element (items grp))"

definition CashFlowSheet_create_from_etree_element :: "element \<Rightarrow> error + sheet" where
  "CashFlowSheet_create_from_etree_element e =
     then_do (map_raising CashFlowGroup_create_from_etree_element (el_findall e ''CashFlowGroup''))
       (\<lambda>grps. CashFlowSheet_init (Many (map Some grps)))"

definition CashFlowSheet_generate_etree_element :: "sheet \<Rightarrow> element" where
  "CashFlowSheet_generate_etree_element sh =
     Element ''CashFlowSheet'' None (map CashFlowGroup_generate_etree_element (groups sh))"

text \<open>
  \<open>Summary.create_from_etree_element\<close> passes the sheet, the interest rate and the years
  to the constructor; \<open>iterations\<close> is the constructor's default 10000. \<open>findall\<close> on the
  \<open>None\<close> that \<open>find\<close> returns for a missing sheet raises AttributeError.
\<close>

definition Summary_create_from_etree_element :: "element \<Rightarrow> error + summary" where
  "Summary_create_from_etree_element e =
     then_do (case el_find e ''CashFlowSheet'' of
                None \<Rightarrow> Inl AttributeError
              | Some c \<Rightarrow> CashFlowSheet_create_from_etree_element c) (\<lambda>sh.
     then_do (find_text e ''InterestRate'') (\<lambda>t1. then_do (py_float t1) (\<lambda>rate.
     then_do (find_text e ''Years'') (\<lambda>t2. then_do (py_float t2) (\<lambda>y.
     then_do (py_floor y) (\<lambda>yrs.
     Inr (Summary_init sh rate yrs 10000)))))))"

definition Summary_generate_etree_element :: "summary \<Rightarrow> element" where
  "Summary_generate_etree_element s =
     Element ''Summary'' None
       [Element ''InterestRate'' (Some (StrFloat (interest_rate s))) [],
        Element ''Years'' (Some (StrInt (years s))) [],
        Element ''Iterations'' (Some (StrInt (iterations s))) [],
        CashFlowSheet_generate_etree_element (cash_flow_sheet s)]"

text \<open>
  \<open>generate_XML_file\<close> writes the element and \<open>read_XML_file\<close> parses the file: an element
  written with the empty string as its text is read back without text. (The white space
  that pretty printing puts into elements with children is left out: the program reads the
  text of childless elements only. The schema \<open>xml_spec.xsd\<close> that \<open>read_XML_file\<close> checks
  first is not part of the sources.)
\<close>

fun written_and_parsed :: "element \<Rightarrow> element" where
  "written_and_parsed (Element t x cs) =
     Element t (if x = Some (Lit '''') then None else x) (map written_and_parsed cs)"

text \<open>Examples: a summary with 500 iterations, and an element with an unknown tag.\<close>

definition summary_500 :: summary where
  "summary_500 = Summary_init (constant_sheet (- 100) 30) (Fl (1 / 10)) 4 500"

definition uniform_element :: element where
  "uniform_element =
     Element ''Uniform'' None
       [Element ''low'' (Some (StrFloat (Fl 1))) [], Element ''high'' (Some (StrFloat (Fl 2))) []]"

section \<open>Sampling outside and inside the active interval\<close>

lemma pf_lt_not_le: "pf_lt a b \<Longrightarrow> \<not> pf_le b a"
  by (cases a; cases b) auto

lemma outside_not_active:
  "pf_lt (of_year y) (start_year d) \<or> pf_lt (end_year d) (of_year y) \<Longrightarrow> \<not> active d y"
  by (auto simp: active_def dest: pf_lt_not_le)

text \<open>
  Claim C1. For each of the three variants and every year strictly below \<open>start_year\<close> or
  strictly above \<open>end_year\<close>, \<open>sample_value\<close> returns exactly the float 0.0 whatever the
  shape parameters are, and it makes no draw: nothing can raise and the generator's state
  is returned as it was.
\<close>

theorem sample_value_outside_interval:
  "pf_lt (of_year y) (start_year d) \<or> pf_lt (end_year d) (of_year y) \<Longrightarrow>
     sample_value R d y g = (Inr (PyFloat (Fl 0)), g)"
  using outside_not_active [of y d] by (cases d) auto

theorem sample_value_outside_interval_witness:
  "(pf_lt (of_year 10) (start_year (Gaussian (Fl 5) (Fl 2) (Fl 3) (Fl 7)))
      \<or> pf_lt (end_year (Gaussian (Fl 5) (Fl 2) (Fl 3) (Fl 7))) (of_year 10))
   \<and> sample_value counting (Gaussian (Fl 5) (Fl 2) (Fl 3) (Fl 7)) 10 (0::nat) =
       (Inr (PyFloat (Fl 0)), 0)
   \<and> sample_value counting (Gaussian (Fl 5) (Fl 2) (Fl 3) (Fl 7)) 4 (0::nat) =
       (Inr (PyFloat (Fl 5)), 1)"
  using sample_value_outside_interval
    [of 10 "Gaussian (Fl 5) (Fl 2) (Fl 3) (Fl 7)" counting "0::nat"]
  by (simp add: of_year_def active_def counting_def)

text \<open>
  Claim C8. For a \<open>Constant\<close> and a year inside its inclusive active interval,
  \<open>sample_value\<close> returns the stored value itself and makes no draw.
\<close>

theorem constant_sample_value_inside:
  "pf_le a (of_year y) \<Longrightarrow> pf_le (of_year y) b \<Longrightarrow>
     sample_value R (Constant v a b) y g = (Inr v, g)"
  by (simp add: active_def)

theorem constant_sample_value_inside_witness:
  "pf_le (Fl 0) (of_year 3) \<and> pf_le (of_year 3) PosInf
   \<and> sample_value counting (Constant (PyFloat (Fl 42)) (Fl 0) PosInf) 3 (0::nat) =
       (Inr (PyFloat (Fl 42)), 0)"
  using constant_sample_value_inside [of "Fl 0" 3 PosInf counting "PyFloat (Fl 42)" "0::nat"]
  by (simp add: of_year_def)

section \<open>Cumulative sums, indexing and the payback loop\<close>



lemma to_float_py_add: "to_float (py_add a b) = pf_add (to_float a) (to_float b)"
  by (cases a; cases b) auto

lemma py_positive_to_float: "py_positive v = pf_lt (Fl 0) (to_float v)"
  by (cases v) auto

lemma length_accumulate: "length (accumulate dt acc xs) = length xs"
  by (induction xs arbitrary: acc) auto

lemma length_cumsum: "length (cumsum xs) = length xs"
  by (simp add: cumsum_def length_accumulate)

lemma py_index_nonneg: "0 \<le> i \<Longrightarrow> i < int (length xs) \<Longrightarrow> py_index xs i = Inr (xs ! nat i)"
  by (simp add: py_index_def)

lemma py_index_minus_one: "xs \<noteq> [] \<Longrightarrow> py_index xs (- 1) = Inr (xs ! (length xs - 1))"
  by (cases xs) (auto simp: py_index_def nat_diff_distrib)

lemma first_positive_range:
  "0 \<le> i \<Longrightarrow> i \<le> n \<Longrightarrow> n \<le> int (length cs) \<Longrightarrow>
   \<exists>t. first_positive cs [i..n - 1] n = Inr t \<and> i \<le> t \<and> t \<le> n
       \<and> (\<forall>j. i \<le> j \<and> j < t \<longrightarrow> \<not> py_positive (cs ! nat j))
       \<and> (t < n \<longrightarrow> py_positive (cs ! nat t))"
proof (induction "nat (n - i)" arbitrary: i)
  case 0
  then have "i = n" by simp
  then show ?case by (intro exI [of _ n]) auto
next
  case (Suc k)
  then have lt: "i < n" by linarith
  then have range: "[i..n - 1] = i # [i + 1..n - 1]" by (simp add: upto_rec1)
  have idx: "py_index cs i = Inr (cs ! nat i)"
    using Suc.prems lt by (simp add: py_index_nonneg)
  show ?case
  proof (cases "py_positive (cs ! nat i)")
    case True
    with range idx lt show ?thesis by auto
  next
    case False
    have "k = nat (n - (i + 1))" using Suc.hyps(2) by linarith
    from Suc.hyps(1) [OF this] Suc.prems lt
    obtain t where t: "first_positive cs [i + 1..n - 1] n = Inr t" "i + 1 \<le> t" "t \<le> n"
      "\<forall>j. i + 1 \<le> j \<and> j < t \<longrightarrow> \<not> py_positive (cs ! nat j)"
      "t < n \<longrightarrow> py_positive (cs ! nat t)"
      by force
    have "\<forall>j. i \<le> j \<and> j < t \<longrightarrow> \<not> py_positive (cs ! nat j)"
    proof (intro allI impI)
      fix j assume "i \<le> j \<and> j < t"
      then consider "j = i" | "i + 1 \<le> j \<and> j < t" by linarith
      then show "\<not> py_positive (cs ! nat j)" using False t(4) by cases auto
    qed
    with t range idx False show ?thesis by auto
  qed
qed

text \<open>A list of element type \<open>int64\<close> holds ints of the 64-bit range only.\<close>

lemma promote_Int64: "promote a b = Int64 \<Longrightarrow> a = Int64 \<and> b = Int64"
  by (cases a; cases b) simp_all

lemma scalar_dtype_Int64: "scalar_dtype x = Int64 \<Longrightarrow> \<exists>n. x = PyInt n \<and> in_int64 n"
  by (cases x) (simp_all split: if_splits)

lemma np_dtype_Int64_ints: "np_dtype xs = Int64 \<Longrightarrow> \<exists>ns. xs = map PyInt ns"
proof (induction xs rule: np_dtype.induct)
  case 1
  then show ?case by simp
next
  case (2 x)
  then have "scalar_dtype x = Int64" by simp
  then obtain n where "x = PyInt n" using scalar_dtype_Int64 by blast
  then have "[x] = map PyInt [n]" by simp
  then show ?case by (rule exI)
next
  case (3 x y ys)
  from "3.prems" have "promote (scalar_dtype x) (np_dtype (y # ys)) = Int64" by simp
  then have a: "scalar_dtype x = Int64" and b: "np_dtype (y # ys) = Int64"
    using promote_Int64 by blast+
  from a obtain n where "x = PyInt n" using scalar_dtype_Int64 by blast
  moreover from "3.IH" [OF b] obtain ns where "y # ys = map PyInt ns" by (elim exE)
  ultimately have "x # y # ys = map PyInt (n # ns)" by simp
  then show ?case by (rule exI)
qed


lemma wrap_int64_add: "wrap_int64 (wrap_int64 a + b) = wrap_int64 (a + b)"
proof -
  have "wrap_int64 a + b + 2 ^ 63 = (a + 2 ^ 63) mod 2 ^ 64 + b"
    by (simp add: wrap_int64_def)
  then have "(wrap_int64 a + b + 2 ^ 63) mod 2 ^ 64 = ((a + 2 ^ 63) mod 2 ^ 64 + b) mod 2 ^ 64"
    by (rule arg_cong)
  also have "\<dots> = (a + 2 ^ 63 + b) mod 2 ^ 64"
    by (rule mod_add_left_eq)
  also have "a + 2 ^ 63 + b = a + b + 2 ^ 63"
    by simp
  finally show ?thesis
    unfolding wrap_int64_def [of "wrap_int64 a + b"] wrap_int64_def [of "a + b"] by (rule arg_cong)
qed

lemma wrap_int64_id: "in_int64 n \<Longrightarrow> wrap_int64 n = n"
proof -
  assume "in_int64 n"
  then have "0 \<le> n + 2 ^ 63" and "n + 2 ^ 63 < 2 ^ 64"
    by (simp_all add: in_int64_def)
  then have "(n + 2 ^ 63) mod 2 ^ 64 = n + 2 ^ 63"
    by (rule mod_pos_pos_trivial)
  then show ?thesis by (simp add: wrap_int64_def)
qed

lemma accumulate_Int64_nth:
  "i < length ns \<Longrightarrow>
     accumulate Int64 (PyInt (wrap_int64 a)) (map PyInt ns) ! i =
       PyInt (wrap_int64 (a + sum_list (take (Suc i) ns)))"
proof (induction ns arbitrary: a i)
  case Nil
  then show ?case by simp
next
  case (Cons n ns)
  show ?case
  proof (cases i)
    case 0
    then show ?thesis by (simp add: wrap_int64_add)
  next
    case (Suc k)
    with Cons.prems have "k < length ns" by simp
    from Cons.IH [OF this, of "a + n"] Suc show ?thesis
      by (simp add: wrap_int64_add add.assoc)
  qed
qed

lemma foldl_py_add_ints: "foldl py_add (PyInt a) (map PyInt ns) = PyInt (a + sum_list ns)"
  by (induction ns arbitrary: a) (simp_all add: add.assoc)

lemma py_sum_ints: "py_sum (map PyInt ns) = PyInt (sum_list ns)"
  by (simp add: py_sum_def foldl_py_add_ints)

lemma to_float_foldl_cast:
  "to_float (foldl py_add (PyFloat (to_float v)) ys) = to_float (foldl py_add v ys)"
proof (induction ys arbitrary: v)
  case Nil
  then show ?case by simp
next
  case (Cons y ys)
  have "py_add (PyFloat (to_float v)) y = PyFloat (to_float (py_add v y))"
    by (cases v; cases y) simp_all
  with Cons [of "py_add v y"] show ?case by simp
qed

lemma accumulate_Float64_nth:
  "i < length xs \<Longrightarrow>
     accumulate Float64 acc xs ! i =
       PyFloat (to_float (foldl py_add acc (take (Suc i) xs)))"
proof (induction xs arbitrary: acc i)
  case Nil
  then show ?case by simp
next
  case (Cons x xs)
  show ?case
  proof (cases i)
    case 0
    then show ?thesis by simp
  next
    case (Suc k)
    with Cons.prems have "k < length xs" by simp
    from Cons.IH [OF this, of "PyFloat (to_float (py_add acc x))"] Suc show ?thesis
      by (simp add: to_float_foldl_cast)
  qed
qed

lemma cumsum_exact:
  assumes "exact_sums ncf" and "i < length ncf"
  shows "to_float (cumsum ncf ! i) = to_float (py_sum (take (Suc i) ncf))"
proof (cases "np_dtype ncf = Float64")
  case True
  with assms(2) show ?thesis
    by (simp add: cumsum_def accumulate_Float64_nth py_sum_def)
next
  case False
  with assms(1) have dt: "np_dtype ncf = Int64"
    and fit: "list_all (\<lambda>i. scalar_dtype (py_sum (take (Suc i) ncf)) = Int64) [0..<length ncf]"
    by (simp_all add: exact_sums_def)
  from np_dtype_Int64_ints [OF dt] obtain ns where ns: "ncf = map PyInt ns" by (elim exE)
  from fit assms(2) have "scalar_dtype (py_sum (take (Suc i) ncf)) = Int64"
    by (simp add: list_all_iff)
  then have "scalar_dtype (PyInt (sum_list (take (Suc i) ns))) = Int64"
    by (simp add: ns take_map py_sum_ints)
  then have "in_int64 (sum_list (take (Suc i) ns))"
    using scalar_dtype_Int64 by blast
  then have "wrap_int64 (sum_list (take (Suc i) ns)) = sum_list (take (Suc i) ns)"
    by (rule wrap_int64_id)
  moreover have zero: "wrap_int64 0 = 0" by (simp add: wrap_int64_def)
  moreover have "accumulate Int64 (PyInt (wrap_int64 0)) (map PyInt ns) ! i =
       PyInt (wrap_int64 (0 + sum_list (take (Suc i) ns)))"
    using assms(2) ns by (intro accumulate_Int64_nth) simp
  ultimately have "cumsum ncf ! i = PyInt (sum_list (take (Suc i) ns))"
    using dt by (simp add: cumsum_def ns)
  then show ?thesis by (simp add: ns take_map py_sum_ints)
qed

lemma exact_sums_not_Object: "exact_sums ncf \<Longrightarrow> np_dtype ncf \<noteq> Object"
  by (auto simp: exact_sums_def)

lemma ensure_sampled_cached: "sampled s \<Longrightarrow> ensure_sampled R s g = (None, s, g)"
  by (simp add: ensure_sampled_def)

lemma net_cash_flow_cached:
  "sampled s \<Longrightarrow> cached_net_cash_flow s = Some ncf \<Longrightarrow> net_cash_flow R s g = (Inr ncf, s, g)"
  by (simp add: net_cash_flow_def ensure_sampled_cached read_attr_def)

lemma get_payback_period_cached:
  "sampled s \<Longrightarrow> cached_net_cash_flow s = Some ncf \<Longrightarrow>
     get_payback_period R s g = (payback_period (years s) ncf, s, g)"
  by (simp add: get_payback_period_def ensure_sampled_cached net_cash_flow_cached)

lemma payback_period_char:
  assumes yrs: "0 \<le> yrs" and len: "length ncf = nat (yrs + 1)" and exact: "exact_sums ncf"
  shows "\<exists>t. 0 \<le> t \<and> t \<le> yrs
    \<and> (\<forall>j. 0 \<le> j \<and> j < t \<longrightarrow> \<not> py_positive (py_sum (take (nat j + 1) ncf)))
    \<and> (t < yrs \<longrightarrow> py_positive (py_sum (take (nat t + 1) ncf)))
    \<and> payback_period yrs ncf =
        Inr (pf_add (of_year (t - 1))
          (pf_abs (pf_div (to_float (py_sum (take (if t = 0 then nat yrs + 1 else nat t) ncf)))
             (to_float (ncf ! nat t)))))"
proof -
  have lcs: "int (length (cumsum ncf)) = yrs + 1"
    using yrs len by (simp add: length_cumsum)
  then have "yrs \<le> int (length (cumsum ncf))" by simp
  from first_positive_range [of 0 yrs "cumsum ncf"] yrs this
  obtain t where t: "first_positive (cumsum ncf) [0..yrs - 1] yrs = Inr t" "0 \<le> t" "t \<le> yrs"
      "\<forall>j. 0 \<le> j \<and> j < t \<longrightarrow> \<not> py_positive (cumsum ncf ! nat j)"
      "t < yrs \<longrightarrow> py_positive (cumsum ncf ! nat t)"
    by auto
  have val: "to_float (cumsum ncf ! nat j) = to_float (py_sum (take (nat j + 1) ncf))"
    if "0 \<le> j" "j \<le> yrs" for j
    using that len cumsum_exact [OF exact, of "nat j"] by simp
  have nth: "py_positive (cumsum ncf ! nat j) = py_positive (py_sum (take (nat j + 1) ncf))"
    if "0 \<le> j" "j \<le> yrs" for j
    using val [OF that] by (simp add: py_positive_to_float)
  have before: "\<forall>j. 0 \<le> j \<and> j < t \<longrightarrow> \<not> py_positive (py_sum (take (nat j + 1) ncf))"
    using t(3,4) nth by force
  have at: "t < yrs \<longrightarrow> py_positive (py_sum (take (nat t + 1) ncf))"
    using t(2,3,5) nth by force
  have num: "py_index ncf t = Inr (ncf ! nat t)"
    using t(2,3) len yrs by (simp add: py_index_nonneg)
  obtain c where c: "py_index (cumsum ncf) (t - 1) = Inr c"
    and cval: "to_float c = to_float (py_sum (take (if t = 0 then nat yrs + 1 else nat t) ncf))"
  proof (cases "t = 0")
    case True
    have "cumsum ncf \<noteq> []" using lcs yrs by auto
    moreover have "length (cumsum ncf) - 1 = nat yrs"
      using yrs len by (simp add: length_cumsum nat_add_distrib)
    ultimately have "py_index (cumsum ncf) (- 1) = Inr (cumsum ncf ! nat yrs)"
      using py_index_minus_one [of "cumsum ncf"] by simp
    with True val [of yrs] yrs that show ?thesis by simp
  next
    case False
    with t(2) have pos: "0 \<le> t - 1" by simp
    have "py_index (cumsum ncf) (t - 1) = Inr (cumsum ncf ! nat (t - 1))"
      using pos t(3) lcs by (simp add: py_index_nonneg)
    moreover have "nat (t - 1) + 1 = nat t" using pos by simp
    ultimately show ?thesis using False val [of "t - 1"] pos t(3) that by simp
  qed
  have quot: "true_divide (np_dtype ncf) c (ncf ! nat t) =
      Inr (pf_div (to_float c) (to_float (ncf ! nat t)))"
    using exact_sums_not_Object [OF exact] by (simp add: true_divide_def)
  have "payback_period yrs ncf =
        Inr (pf_add (of_year (t - 1))
          (pf_abs (pf_div (to_float (py_sum (take (if t = 0 then nat yrs + 1 else nat t) ncf)))
             (to_float (ncf ! nat t)))))"
    using t(1) num c quot cval by (simp add: payback_period_def py_range_def)
  with t(2,3) before at show ?thesis by blast
qed

lemma payback_example:
  "payback_period 4 [PyFloat (Fl (- 100)), PyFloat (Fl 30), PyFloat (Fl 30), PyFloat (Fl 30),
     PyFloat (Fl 30)] = Inr (Fl (10 / 3))"
  by (simp add: payback_period_def py_range_def cumsum_def py_index_def upto_rec1 of_year_def
      true_divide_def)

lemmas sampling_defs =
  sample_cash_flow_def get_cash_flow_def get_upfront_cost_def get_recurring_cost_def
  group_get_upfront_cost_def group_get_recurring_cost_def item_get_upfront_cost_def
  item_get_recurring_cost_def py_range_def active_def of_year_def py_sum_def
  one_item_sheet_def Summary_init_def

lemma sample_constant_summary:
  "sample_cash_flow counting (constant_summary u r 4) (0::nat) =
    (None, (constant_summary u r 4)\<lparr>cached_total_cash_flow :=
        Some [[[PyFloat (Fl u)]], [[PyFloat (Fl r)]], [[PyFloat (Fl r)]], [[PyFloat (Fl r)]],
          [[PyFloat (Fl r)]]],
      cached_net_cash_flow := Some [PyFloat (Fl u), PyFloat (Fl r), PyFloat (Fl r),
        PyFloat (Fl r), PyFloat (Fl r)], sampled := True\<rparr>, 0)"
  by (simp add: sampling_defs constant_summary_def constant_sheet_def upto_rec1)

lemma sample_int_summary:
  "sample_cash_flow counting (int_summary u r 3) (0::nat) =
    (None, (int_summary u r 3)\<lparr>cached_total_cash_flow :=
        Some [[[PyInt u]], [[PyInt r]], [[PyInt r]], [[PyInt r]]],
      cached_net_cash_flow := Some [PyInt u, PyInt r, PyInt r, PyInt r], sampled := True\<rparr>, 0)"
  by (simp add: sampling_defs int_summary_def upto_rec1)


lemma get_payback_period_unsampled_example:
  "get_payback_period counting (constant_summary (- 100) 30 4) (0::nat) =
     (Inr (Fl (10 / 3)), snd (sample_cash_flow counting (constant_summary (- 100) 30 4) 0))"
proof -
  have "\<not> sampled (constant_summary (- 100) 30 4)"
    by (simp add: constant_summary_def Summary_init_def)
  moreover have "years (constant_summary (- 100) 30 4) = 4"
    by (simp add: constant_summary_def Summary_init_def)
  ultimately show ?thesis
    by (simp add: get_payback_period_def ensure_sampled_def net_cash_flow_def read_attr_def
      sample_constant_summary payback_example)
qed

section \<open>The payback period\<close>

text \<open>
  Claim C2, as amended. On a sampled summary whose net cash flow has \<open>years + 1\<close>
  entries, all of them floats or ints of the \<open>int64\<close> range, and, when all of them are
  ints, has all its running sums in the \<open>int64\<close> range, \<open>get_payback_period\<close> returns
  \<open>(t - 1) + |cumsum[t - 1] / net_cash_flow[t]|\<close>, where the cumulative flow (the running
  sum from year 0) is not positive at any year before \<open>t\<close> and is positive at \<open>t\<close> unless
  \<open>t = years\<close>: \<open>t\<close> is the first year below \<open>years\<close> with a positive cumulative flow, and
  \<open>years\<close> when there is none. It returns a value and leaves the summary and the generator
  as they were; \<open>cumsum[-1]\<close> is the last running sum. For the flows
  \<open>[-100, 30, 30, 30, 30]\<close> sampled over 4 years the result is \<open>3 + 10/30\<close>.
\<close>

theorem get_payback_period_first_positive:
  assumes "sampled s" and "cached_net_cash_flow s = Some ncf"
    and "0 \<le> years s" and "length ncf = nat (years s + 1)"
    and "exact_sums ncf"
  shows "(\<exists>t. 0 \<le> t \<and> t \<le> years s
      \<and> (\<forall>j. 0 \<le> j \<and> j < t \<longrightarrow> \<not> py_positive (py_sum (take (nat j + 1) ncf)))
      \<and> (t < years s \<longrightarrow> py_positive (py_sum (take (nat t + 1) ncf)))
      \<and> get_payback_period R s g =
          (Inr (pf_add (of_year (t - 1))
             (pf_abs (pf_div
                (to_float (py_sum (take (if t = 0 then nat (years s) + 1 else nat t) ncf)))
                (to_float (ncf ! nat t))))), s, g))
    \<and> get_payback_period counting (constant_summary (- 100) 30 4) (0::nat) =
        (Inr (Fl (3 + 10 / 30)),
         snd (sample_cash_flow counting (constant_summary (- 100) 30 4) 0))"
  using payback_period_char [OF assms(3,4,5)] get_payback_period_cached [OF assms(1,2), of R g]
    get_payback_period_unsampled_example
  by simp

theorem get_payback_period_first_positive_witness:
  "sampled (fst (snd (sample_cash_flow counting (constant_summary (- 100) 30 4) (0::nat))))
   \<and> cached_net_cash_flow (fst (snd (sample_cash_flow counting (constant_summary (- 100) 30 4) (0::nat)))) = Some [PyFloat (Fl (- 100)), PyFloat (Fl 30), PyFloat (Fl 30), PyFloat (Fl 30), PyFloat (Fl 30)]
   \<and> 0 \<le> years (fst (snd (sample_cash_flow counting (constant_summary (- 100) 30 4) (0::nat))))
   \<and> length [PyFloat (Fl (- 100)), PyFloat (Fl 30), PyFloat (Fl 30), PyFloat (Fl 30), PyFloat (Fl 30)] = nat (years (fst (snd (sample_cash_flow counting (constant_summary (- 100) 30 4) (0::nat)))) + 1)
   \<and> exact_sums [PyFloat (Fl (- 100)), PyFloat (Fl 30), PyFloat (Fl 30), PyFloat (Fl 30), PyFloat (Fl 30)]
   \<and> (\<exists>t. 0 \<le> t \<and> t \<le> years (fst (snd (sample_cash_flow counting (constant_summary (- 100) 30 4) (0::nat))))
      \<and> get_payback_period counting (fst (snd (sample_cash_flow counting (constant_summary (- 100) 30 4) (0::nat)))) (7::nat) =
          (Inr (pf_add (of_year (t - 1))
             (pf_abs (pf_div
                (to_float (py_sum (take (if t = 0 then nat (years (fst (snd (sample_cash_flow counting (constant_summary (- 100) 30 4) (0::nat))))) + 1 else nat t) [PyFloat (Fl (- 100)), PyFloat (Fl 30), PyFloat (Fl 30), PyFloat (Fl 30), PyFloat (Fl 30)])))
                (to_float ([PyFloat (Fl (- 100)), PyFloat (Fl 30), PyFloat (Fl 30), PyFloat (Fl 30), PyFloat (Fl 30)] ! nat t))))),
           (fst (snd (sample_cash_flow counting (constant_summary (- 100) 30 4) (0::nat)))), 7))
   \<and> get_payback_period counting (fst (snd (sample_cash_flow counting (constant_summary (- 100) 30 4) (0::nat)))) (7::nat) = (Inr (Fl (10 / 3)), (fst (snd (sample_cash_flow counting (constant_summary (- 100) 30 4) (0::nat)))), 7)
   \<and> cached_net_cash_flow (fst (snd (sample_cash_flow counting (int_summary (- 100) 30 3) (0::nat)))) = Some [PyInt (- 100), PyInt 30, PyInt 30, PyInt 30]
   \<and> exact_sums [PyInt (- 100), PyInt 30, PyInt 30, PyInt 30]
   \<and> (\<exists>t. 0 \<le> t \<and> t \<le> years (fst (snd (sample_cash_flow counting (int_summary (- 100) 30 3) (0::nat))))
      \<and> get_payback_period counting (fst (snd (sample_cash_flow counting (int_summary (- 100) 30 3) (0::nat)))) (7::nat) =
          (Inr (pf_add (of_year (t - 1))
             (pf_abs (pf_div
                (to_float (py_sum (take (if t = 0 then nat (years (fst (snd (sample_cash_flow counting (int_summary (- 100) 30 3) (0::nat))))) + 1 else nat t) [PyInt (- 100), PyInt 30, PyInt 30, PyInt 30])))
                (to_float ([PyInt (- 100), PyInt 30, PyInt 30, PyInt 30] ! nat t))))),
           (fst (snd (sample_cash_flow counting (int_summary (- 100) 30 3) (0::nat)))), 7))"
proof -
  have ai: "sampled (fst (snd (sample_cash_flow counting (int_summary (- 100) 30 3) (0::nat))))" by (simp add: sample_int_summary)
  have bi: "cached_net_cash_flow (fst (snd (sample_cash_flow counting (int_summary (- 100) 30 3) (0::nat)))) = Some [PyInt (- 100), PyInt 30, PyInt 30, PyInt 30]" by (simp add: sample_int_summary)
  have yi: "years (fst (snd (sample_cash_flow counting (int_summary (- 100) 30 3) (0::nat)))) = 3"
    by (simp add: sample_int_summary) (simp add: int_summary_def Summary_init_def)
  have ci: "0 \<le> years (fst (snd (sample_cash_flow counting (int_summary (- 100) 30 3) (0::nat))))" by (simp add: yi)
  have di: "length [PyInt (- 100), PyInt 30, PyInt 30, PyInt 30] = nat (years (fst (snd (sample_cash_flow counting (int_summary (- 100) 30 3) (0::nat)))) + 1)" by (simp add: yi)
  have ei: "exact_sums [PyInt (- 100), PyInt 30, PyInt 30, PyInt 30]"
    by (simp add: exact_sums_def in_int64_def py_sum_def upt_rec numeral_eq_Suc)
  from get_payback_period_first_positive [OF ai bi ci di ei, of counting "7::nat"]
  have int_flows: "\<exists>t. 0 \<le> t \<and> t \<le> years (fst (snd (sample_cash_flow counting (int_summary (- 100) 30 3) (0::nat))))
      \<and> get_payback_period counting (fst (snd (sample_cash_flow counting (int_summary (- 100) 30 3) (0::nat)))) (7::nat) =
          (Inr (pf_add (of_year (t - 1))
             (pf_abs (pf_div
                (to_float (py_sum (take (if t = 0 then nat (years (fst (snd (sample_cash_flow counting (int_summary (- 100) 30 3) (0::nat))))) + 1 else nat t) [PyInt (- 100), PyInt 30, PyInt 30, PyInt 30])))
                (to_float ([PyInt (- 100), PyInt 30, PyInt 30, PyInt 30] ! nat t))))),
           (fst (snd (sample_cash_flow counting (int_summary (- 100) 30 3) (0::nat)))), 7)"
    by blast
  let ?s = "(fst (snd (sample_cash_flow counting (constant_summary (- 100) 30 4) (0::nat))))"
  let ?ncf = "[PyFloat (Fl (- 100)), PyFloat (Fl 30), PyFloat (Fl 30), PyFloat (Fl 30), PyFloat (Fl 30)]"
  have a: "sampled ?s" by (simp add: sample_constant_summary)
  have b: "cached_net_cash_flow ?s = Some ?ncf" by (simp add: sample_constant_summary)
  have y: "years ?s = 4"
    by (simp add: sample_constant_summary) (simp add: constant_summary_def Summary_init_def)
  have c: "0 \<le> years ?s" by (simp add: y)
  have d: "length ?ncf = nat (years ?s + 1)" by (simp add: y)
  have e: "exact_sums ?ncf" by (simp add: exact_sums_def)
  from get_payback_period_first_positive [OF a b c d e, of counting "7::nat"]
  have "\<exists>t. 0 \<le> t \<and> t \<le> years ?s
      \<and> get_payback_period counting ?s (7::nat) =
          (Inr (pf_add (of_year (t - 1))
             (pf_abs (pf_div
                (to_float (py_sum (take (if t = 0 then nat (years ?s) + 1 else nat t) ?ncf)))
                (to_float (?ncf ! nat t))))), ?s, 7)"
    by blast
  moreover have "get_payback_period counting ?s (7::nat) = (Inr (Fl (10 / 3)), ?s, 7)"
    using get_payback_period_cached [OF a b, of counting "7::nat"] payback_example by (simp add: y)
  ultimately show ?thesis using a b c d e bi ei int_flows by blast
qed

lemma wrapped_example:
  "payback_period 3 [PyInt (- (2 ^ 62)), PyInt (- (2 ^ 62)), PyInt (- (2 ^ 62)), PyInt (- (2 ^ 62))] = Inr (Fl 3)"
  by (simp add: payback_period_def py_range_def cumsum_def py_index_def upto_rec1 of_year_def
      true_divide_def in_int64_def wrap_int64_def)

text \<open>
  The claim C2 as it was stated fails where the cumulative sums of ints wrap around: for
  int costs of \<open>-2^62\<close> sampled over 3 years no running sum is positive, so that the
  claim's year is 3 and its value \<open>2 + 3\<close>, but the third cumulative sum of
  \<open>numpy.cumsum\<close> has wrapped to \<open>2^62\<close> and the call returns \<open>1 + 2\<close>.
\<close>

theorem get_payback_period_int64_wrap:
  "sampled (fst (snd (sample_cash_flow counting (int_summary (- (2 ^ 62)) (- (2 ^ 62)) 3) (0::nat))))
   \<and> cached_net_cash_flow (fst (snd (sample_cash_flow counting (int_summary (- (2 ^ 62)) (- (2 ^ 62)) 3) (0::nat)))) = Some [PyInt (- (2 ^ 62)), PyInt (- (2 ^ 62)), PyInt (- (2 ^ 62)), PyInt (- (2 ^ 62))]
   \<and> years (fst (snd (sample_cash_flow counting (int_summary (- (2 ^ 62)) (- (2 ^ 62)) 3) (0::nat)))) = 3
   \<and> get_payback_period counting (fst (snd (sample_cash_flow counting (int_summary (- (2 ^ 62)) (- (2 ^ 62)) 3) (0::nat)))) (7::nat) = (Inr (Fl 3), (fst (snd (sample_cash_flow counting (int_summary (- (2 ^ 62)) (- (2 ^ 62)) 3) (0::nat)))), 7)
   \<and> \<not> (\<exists>t. 0 \<le> t \<and> t \<le> 3
      \<and> (\<forall>j. 0 \<le> j \<and> j < t \<longrightarrow> \<not> py_positive (py_sum (take (nat j + 1) [PyInt (- (2 ^ 62)), PyInt (- (2 ^ 62)), PyInt (- (2 ^ 62)), PyInt (- (2 ^ 62))])))
      \<and> (t < 3 \<longrightarrow> py_positive (py_sum (take (nat t + 1) [PyInt (- (2 ^ 62)), PyInt (- (2 ^ 62)), PyInt (- (2 ^ 62)), PyInt (- (2 ^ 62))])))
      \<and> get_payback_period counting (fst (snd (sample_cash_flow counting (int_summary (- (2 ^ 62)) (- (2 ^ 62)) 3) (0::nat)))) (7::nat) =
          (Inr (pf_add (of_year (t - 1))
             (pf_abs (pf_div
                (to_float (py_sum (take (if t = 0 then 4 else nat t) [PyInt (- (2 ^ 62)), PyInt (- (2 ^ 62)), PyInt (- (2 ^ 62)), PyInt (- (2 ^ 62))])))
                (to_float ([PyInt (- (2 ^ 62)), PyInt (- (2 ^ 62)), PyInt (- (2 ^ 62)), PyInt (- (2 ^ 62))] ! nat t))))), (fst (snd (sample_cash_flow counting (int_summary (- (2 ^ 62)) (- (2 ^ 62)) 3) (0::nat)))), 7))"
proof -
  let ?s = "(fst (snd (sample_cash_flow counting (int_summary (- (2 ^ 62)) (- (2 ^ 62)) 3) (0::nat))))"
  let ?ncf = "[PyInt (- (2 ^ 62)), PyInt (- (2 ^ 62)), PyInt (- (2 ^ 62)), PyInt (- (2 ^ 62))]"
  have a: "sampled ?s" by (simp add: sample_int_summary)
  have b: "cached_net_cash_flow ?s = Some ?ncf" by (simp add: sample_int_summary)
  have y: "years ?s = 3"
    by (simp add: sample_int_summary) (simp add: int_summary_def Summary_init_def)
  have v: "get_payback_period counting ?s (7::nat) = (Inr (Fl 3), ?s, 7)"
    unfolding get_payback_period_cached [OF a b, of counting "7::nat"] y wrapped_example ..
  have "False" if t: "0 \<le> t" "t \<le> 3"
      "t < 3 \<longrightarrow> py_positive (py_sum (take (nat t + 1) ?ncf))"
      "get_payback_period counting ?s (7::nat) =
          (Inr (pf_add (of_year (t - 1))
             (pf_abs (pf_div
                (to_float (py_sum (take (if t = 0 then 4 else nat t) ?ncf)))
                (to_float (?ncf ! nat t))))), ?s, 7)" for t
  proof -
    from t(1,2) consider "t = 0" | "t = 1" | "t = 2" | "t = 3" by linarith
    then show False
    proof cases
      case 1
      with t(3) show False by (simp add: py_sum_def)
    next
      case 2
      with t(3) show False by (simp add: py_sum_def)
    next
      case 3
      with t(3) show False by (simp add: py_sum_def numeral_eq_Suc)
    next
      case 4
      with t(4) v show False by (simp add: py_sum_def of_year_def numeral_eq_Suc)
    qed
  qed
  then have "\<not> (\<exists>t. 0 \<le> t \<and> t \<le> 3
      \<and> (\<forall>j. 0 \<le> j \<and> j < t \<longrightarrow> \<not> py_positive (py_sum (take (nat j + 1) ?ncf)))
      \<and> (t < 3 \<longrightarrow> py_positive (py_sum (take (nat t + 1) ?ncf)))
      \<and> get_payback_period counting ?s (7::nat) =
          (Inr (pf_add (of_year (t - 1))
             (pf_abs (pf_div
                (to_float (py_sum (take (if t = 0 then 4 else nat t) ?ncf)))
                (to_float (?ncf ! nat t))))), ?s, 7))"
    by blast
  with a b y v show ?thesis by blast
qed






section \<open>The net present value\<close>

lemma foldl_pf_add_Fl: "foldl pf_add (Fl a) (map Fl xs) = Fl (a + sum_list xs)"
  by (induction xs arbitrary: a) (auto simp: add.assoc)

lemma np_sum_Fl: "np_sum (map Fl xs) = Fl (sum_list xs)"
  by (simp add: np_sum_def foldl_pf_add_Fl)

lemma pf_pow_Fl: "pf_pow (Fl a) n = Fl (a ^ n)"
  by (cases n) auto

lemma npv_finite:
  assumes "1 + r \<noteq> 0" and "map to_float ncf = map Fl xs"
  shows "npv (Fl r) ncf = Fl (\<Sum>t = 0..<length xs. xs ! t / (1 + r) ^ t)"
proof -
  have len: "length ncf = length xs"
    using assms(2) by (metis length_map)
  have nth: "to_float (ncf ! t) = Fl (xs ! t)" if "t < length xs" for t
    using that assms(2) len by (metis nth_map)
  have "map (\<lambda>t. pf_div (to_float (ncf ! t)) (pf_pow (pf_add (Fl 1) (Fl r)) t)) [0..<length xs]
      = map Fl (map (\<lambda>t. xs ! t / (1 + r) ^ t) [0..<length xs])"
    using assms(1) nth by (simp add: pf_pow_Fl)
  then show ?thesis
    by (simp add: npv_def len np_sum_Fl interv_sum_list_conv_sum_set_nat del: map_map)
qed

lemma npv_zero_rate: "map to_float ncf = map Fl xs \<Longrightarrow> npv (Fl 0) ncf = Fl (sum_list xs)"
proof -
  assume m: "map to_float ncf = map Fl xs"
  have "(\<Sum>t = 0..<length xs. xs ! t) = sum_list xs"
    using interv_sum_list_conv_sum_set_nat [of "\<lambda>t. xs ! t" 0 "length xs"]
    by (simp add: map_nth)
  then show ?thesis using npv_finite [of 0 ncf xs] m by simp
qed

lemma get_NPV_cached:
  "sampled s \<Longrightarrow> cached_net_cash_flow s = Some ncf \<Longrightarrow>
     get_NPV R s g = (Inr (npv (interest_rate s) ncf), s, g)"
  by (simp add: get_NPV_def ensure_sampled_cached net_cash_flow_cached)

text \<open>
  Claim C7. On a sampled summary whose net cash flow has the \<open>years + 1\<close> finite values
  \<open>xs\<close> (as floats or as ints) and whose interest rate is \<open>r\<close>, \<open>get_NPV\<close> returns the sum
  over \<open>t = 0 .. years\<close> of \<open>xs[t] / (1 + r)^t\<close> (for \<open>1 + r \<noteq> 0\<close>, where the quotients
  are defined), and for \<open>r = 0\<close> the plain sum of \<open>xs\<close>. The summary and the generator
  are left as they were.
\<close>

theorem get_NPV_discounted_sum:
  assumes "sampled s" and "cached_net_cash_flow s = Some ncf"
    and "map to_float ncf = map Fl xs"
    and "interest_rate s = Fl r"
    and "0 \<le> years s" and "length xs = nat (years s + 1)"
  shows "(1 + r \<noteq> 0 \<longrightarrow>
      get_NPV R s g = (Inr (Fl (\<Sum>t = 0..nat (years s). xs ! t / (1 + r) ^ t)), s, g))
    \<and> (r = 0 \<longrightarrow> get_NPV R s g = (Inr (Fl (sum_list xs)), s, g))"
proof -
  have "{0..<length xs} = {0..nat (years s)}"
    using assms(5,6) by (auto simp: nat_add_distrib)
  then have "1 + r \<noteq> 0 \<Longrightarrow>
      npv (Fl r) ncf = Fl (\<Sum>t = 0..nat (years s). xs ! t / (1 + r) ^ t)"
    using npv_finite [OF _ assms(3), of r] by simp
  then show ?thesis
    using get_NPV_cached [OF assms(1,2), of R g] assms(4) npv_zero_rate [OF assms(3)] by auto
qed

theorem get_NPV_discounted_sum_witness:
  "sampled (fst (snd (sample_cash_flow counting (constant_summary (- 100) 30 4) (0::nat))))
   \<and> cached_net_cash_flow (fst (snd (sample_cash_flow counting (constant_summary (- 100) 30 4) (0::nat)))) = Some [PyFloat (Fl (- 100)), PyFloat (Fl 30), PyFloat (Fl 30), PyFloat (Fl 30), PyFloat (Fl 30)]
   \<and> map to_float [PyFloat (Fl (- 100)), PyFloat (Fl 30), PyFloat (Fl 30), PyFloat (Fl 30), PyFloat (Fl 30)] = map Fl [- 100, 30, 30, 30, 30]
   \<and> interest_rate (fst (snd (sample_cash_flow counting (constant_summary (- 100) 30 4) (0::nat)))) = Fl (1 / 10)
   \<and> get_NPV counting (fst (snd (sample_cash_flow counting (constant_summary (- 100) 30 4) (0::nat)))) (7::nat) =
       (Inr (Fl (- 100 + 30 / (11 / 10) + 30 / (11 / 10) ^ 2 + 30 / (11 / 10) ^ 3
                 + 30 / (11 / 10) ^ 4)),
        (fst (snd (sample_cash_flow counting (constant_summary (- 100) 30 4) (0::nat)))), 7)
   \<and> get_NPV counting ((fst (snd (sample_cash_flow counting (constant_summary (- 100) 30 4) (0::nat))))\<lparr>interest_rate := Fl 0\<rparr>) (7::nat) =
       (Inr (Fl 20), (fst (snd (sample_cash_flow counting (constant_summary (- 100) 30 4) (0::nat))))\<lparr>interest_rate := Fl 0\<rparr>, 7)"
proof -
  let ?s = "(fst (snd (sample_cash_flow counting (constant_summary (- 100) 30 4) (0::nat))))"
  let ?ncf = "[PyFloat (Fl (- 100)), PyFloat (Fl 30), PyFloat (Fl 30), PyFloat (Fl 30), PyFloat (Fl 30)]"
  let ?xs = "[- 100, 30, 30, 30, 30] :: real list"
  have a: "sampled ?s" by (simp add: sample_constant_summary)
  have b: "cached_net_cash_flow ?s = Some ?ncf" by (simp add: sample_constant_summary)
  have m: "map to_float ?ncf = map Fl ?xs" by simp
  have y: "years ?s = 4"
    by (simp add: sample_constant_summary) (simp add: constant_summary_def Summary_init_def)
  have r: "interest_rate ?s = Fl (1 / 10)"
    by (simp add: sample_constant_summary) (simp add: constant_summary_def Summary_init_def)
  have c: "0 \<le> years ?s" by (simp add: y)
  have d: "length ?xs = nat (years ?s + 1)" by (simp add: y)
  have set4: "{0..nat 4} = {0, 1, 2, 3, 4::nat}" by auto
  from get_NPV_discounted_sum [OF a b m r c d, of counting "7::nat"]
  have v1: "get_NPV counting ?s (7::nat) =
      (Inr (Fl (- 100 + 30 / (11 / 10) + 30 / (11 / 10) ^ 2 + 30 / (11 / 10) ^ 3
                 + 30 / (11 / 10) ^ 4)), ?s, 7)"
    unfolding y set4 by (simp add: numeral_eq_Suc)
  let ?s0 = "?s\<lparr>interest_rate := Fl 0\<rparr>"
  have a0: "sampled ?s0" by (simp add: a)
  have b0: "cached_net_cash_flow ?s0 = Some ?ncf" using b by simp
  have r0: "interest_rate ?s0 = Fl 0" by simp
  have c0: "0 \<le> years ?s0" by (simp add: y)
  have d0: "length ?xs = nat (years ?s0 + 1)" by (simp add: y)
  from get_NPV_discounted_sum [OF a0 b0 m r0 c0 d0, of counting "7::nat", THEN conjunct2]
  have v2: "get_NPV counting ?s0 (7::nat) = (Inr (Fl 20), ?s0, 7)" by simp
  from a b m r v1 v2 show ?thesis by blast
qed

section \<open>Lazy sampling and the cache\<close>

lemma ensure_sampled_fresh: "\<not> sampled s \<Longrightarrow> ensure_sampled R s g = sample_cash_flow R s g"
  by (simp add: ensure_sampled_def)

lemma sample_cash_flow_returns:
  assumes "sample_cash_flow R s g = (None, s1, g1)"
  shows "\<exists>tcf ncf. get_cash_flow R (cash_flow_sheet s) (years s) g = (Inr (tcf, ncf), g1)
    \<and> s1 = s\<lparr>cached_total_cash_flow := Some tcf, cached_net_cash_flow := Some ncf,
          sampled := True\<rparr>"
proof (cases "get_cash_flow R (cash_flow_sheet s) (years s) g")
  case (Pair r g')
  show ?thesis
  proof (cases r)
    case (Inl e)
    with Pair assms show ?thesis by (simp add: sample_cash_flow_def)
  next
    case (Inr flows)
    obtain tcf ncf where "flows = (tcf, ncf)" by (cases flows)
    with Inr Pair assms show ?thesis by (simp add: sample_cash_flow_def)
  qed
qed

lemma sample_cash_flow_raises:
  assumes "sample_cash_flow R s g = (Some e, s1, g1)"
  shows "s1 = s \<and> get_cash_flow R (cash_flow_sheet s) (years s) g = (Inl e, g1)"
proof (cases "get_cash_flow R (cash_flow_sheet s) (years s) g")
  case (Pair r g')
  show ?thesis
  proof (cases r)
    case (Inl e')
    with Pair assms show ?thesis by (simp add: sample_cash_flow_def)
  next
    case (Inr flows)
    obtain tcf ncf where "flows = (tcf, ncf)" by (cases flows)
    with Inr Pair assms show ?thesis by (simp add: sample_cash_flow_def)
  qed
qed

lemma total_cash_flow_cached:
  "sampled s \<Longrightarrow> cached_total_cash_flow s = Some tcf \<Longrightarrow>
     total_cash_flow R s g = (Inr tcf, s, g)"
  by (simp add: total_cash_flow_def ensure_sampled_cached read_attr_def)

lemma metrics_state_cached:
  assumes "sampled s" and "cached_net_cash_flow s = Some ncf"
  shows "snd (get_IRR irr R s g) = (s, g)"
    and "snd (get_NPV R s g) = (s, g)"
    and "snd (get_payback_period R s g) = (s, g)"
  using assms
  by (simp_all add: get_IRR_def get_NPV_def get_payback_period_def ensure_sampled_cached
      net_cash_flow_cached)

lemma reads_after_return:
  assumes fresh: "\<not> sampled s" and ret: "sample_cash_flow R s g = (None, s1, g1)"
    and t: "cached_total_cash_flow s1 = Some tcf" and n: "cached_net_cash_flow s1 = Some ncf"
    and s1: "sampled s1"
  shows "total_cash_flow R s g = (Inr tcf, s1, g1)"
    and "net_cash_flow R s g = (Inr ncf, s1, g1)"
    and "snd (get_IRR irr R s g) = (s1, g1)"
    and "snd (get_NPV R s g) = (s1, g1)"
    and "snd (get_payback_period R s g) = (s1, g1)"
proof -
  show "total_cash_flow R s g = (Inr tcf, s1, g1)"
    using fresh ret t by (simp add: total_cash_flow_def ensure_sampled_fresh read_attr_def)
  show "net_cash_flow R s g = (Inr ncf, s1, g1)"
    using fresh ret n by (simp add: net_cash_flow_def ensure_sampled_fresh read_attr_def)
  have again: "net_cash_flow R s1 g1 = (Inr ncf, s1, g1)"
    by (rule net_cash_flow_cached [OF s1 n])
  show "snd (get_IRR irr R s g) = (s1, g1)"
    using fresh ret again by (simp add: get_IRR_def ensure_sampled_fresh)
  show "snd (get_NPV R s g) = (s1, g1)"
    using fresh ret again by (simp add: get_NPV_def ensure_sampled_fresh)
  show "snd (get_payback_period R s g) = (s1, g1)"
    using fresh ret again by (simp add: get_payback_period_def ensure_sampled_fresh)
qed

lemma reads_after_raise:
  assumes fresh: "\<not> sampled s" and ret: "sample_cash_flow R s g = (Some e, s1, g1)"
  shows "total_cash_flow R s g = (Inl e, s1, g1)"
    and "net_cash_flow R s g = (Inl e, s1, g1)"
    and "get_IRR irr R s g = (Inl e, s1, g1)"
    and "get_NPV R s g = (Inl e, s1, g1)"
    and "get_payback_period R s g = (Inl e, s1, g1)"
  using fresh ret
  by (simp_all add: total_cash_flow_def net_cash_flow_def get_IRR_def get_NPV_def
      get_payback_period_def ensure_sampled_fresh)

text \<open>
  Claim C3, as amended. While \<open>sampled\<close> is false, a read of \<open>total_cash_flow\<close> or
  \<open>net_cash_flow\<close> and a call of \<open>get_IRR\<close>, \<open>get_NPV\<close> or \<open>get_payback_period\<close> make
  the one call of \<open>sample_cash_flow\<close>. When that call returns, the summary and the
  generator are left exactly as it left them: the flag is true, both cached fields hold the
  flows that \<open>get_cash_flow\<close> sampled, the two properties return them, and a second read
  right after returns the same values and changes nothing. When a draw raises, the read
  raises the same exception and the summary is as it was, with the flag still false.
  While \<open>sampled\<close> is true (and the cached fields are set), the same reads return the
  cached values and change neither the summary nor the generator, so no distribution is
  drawn again. Only a call of \<open>sample_cash_flow\<close> itself samples again.
\<close>

theorem lazy_sampling_once:
  "(\<not> sampled s \<and> sample_cash_flow R s g = (None, s1, g1) \<longrightarrow>
      sampled s1
    \<and> (\<exists>tcf ncf. get_cash_flow R (cash_flow_sheet s) (years s) g = (Inr (tcf, ncf), g1)
         \<and> cached_total_cash_flow s1 = Some tcf \<and> cached_net_cash_flow s1 = Some ncf
         \<and> total_cash_flow R s g = (Inr tcf, s1, g1)
         \<and> net_cash_flow R s g = (Inr ncf, s1, g1)
         \<and> total_cash_flow R s1 g1 = (Inr tcf, s1, g1)
         \<and> net_cash_flow R s1 g1 = (Inr ncf, s1, g1))
    \<and> snd (get_IRR irr R s g) = (s1, g1)
    \<and> snd (get_NPV R s g) = (s1, g1)
    \<and> snd (get_payback_period R s g) = (s1, g1))
   \<and> (\<not> sampled s \<and> sample_cash_flow R s g = (Some e, s1, g1) \<longrightarrow>
      s1 = s
    \<and> total_cash_flow R s g = (Inl e, s, g1)
    \<and> net_cash_flow R s g = (Inl e, s, g1)
    \<and> get_IRR irr R s g = (Inl e, s, g1)
    \<and> get_NPV R s g = (Inl e, s, g1)
    \<and> get_payback_period R s g = (Inl e, s, g1))
   \<and> (sampled s \<and> cached_total_cash_flow s = Some tcf' \<and> cached_net_cash_flow s = Some ncf' \<longrightarrow>
      total_cash_flow R s g = (Inr tcf', s, g)
    \<and> net_cash_flow R s g = (Inr ncf', s, g)
    \<and> snd (get_IRR irr R s g) = (s, g)
    \<and> snd (get_NPV R s g) = (s, g)
    \<and> snd (get_payback_period R s g) = (s, g))"
proof (intro conjI impI)
  assume a: "\<not> sampled s \<and> sample_cash_flow R s g = (None, s1, g1)"
  then have fresh: "\<not> sampled s" and ret: "sample_cash_flow R s g = (None, s1, g1)"
    by simp_all
  from sample_cash_flow_returns [OF ret] obtain tcf ncf
    where flows: "get_cash_flow R (cash_flow_sheet s) (years s) g = (Inr (tcf, ncf), g1)"
      and s1: "s1 = s\<lparr>cached_total_cash_flow := Some tcf, cached_net_cash_flow := Some ncf,
          sampled := True\<rparr>"
    by blast
  have sam: "sampled s1" and t: "cached_total_cash_flow s1 = Some tcf"
    and n: "cached_net_cash_flow s1 = Some ncf"
    by (simp_all add: s1)
  show "sampled s1" by (rule sam)
  note reads = reads_after_return [OF fresh ret t n sam]
  show "\<exists>tcf ncf. get_cash_flow R (cash_flow_sheet s) (years s) g = (Inr (tcf, ncf), g1)
         \<and> cached_total_cash_flow s1 = Some tcf \<and> cached_net_cash_flow s1 = Some ncf
         \<and> total_cash_flow R s g = (Inr tcf, s1, g1)
         \<and> net_cash_flow R s g = (Inr ncf, s1, g1)
         \<and> total_cash_flow R s1 g1 = (Inr tcf, s1, g1)
         \<and> net_cash_flow R s1 g1 = (Inr ncf, s1, g1)"
    using flows t n reads(1,2) total_cash_flow_cached [OF sam t, of R g1]
      net_cash_flow_cached [OF sam n, of R g1]
    by blast
  show "snd (get_IRR irr R s g) = (s1, g1)" by (rule reads)
  show "snd (get_NPV R s g) = (s1, g1)" by (rule reads)
  show "snd (get_payback_period R s g) = (s1, g1)" by (rule reads)
next
  assume a: "\<not> sampled s \<and> sample_cash_flow R s g = (Some e, s1, g1)"
  then have fresh: "\<not> sampled s" and ret: "sample_cash_flow R s g = (Some e, s1, g1)"
    by simp_all
  from sample_cash_flow_raises [OF ret] have same: "s1 = s" by simp
  note reads = reads_after_raise [OF fresh ret, unfolded same]
  show "s1 = s" by (rule same)
  show "total_cash_flow R s g = (Inl e, s, g1)" by (rule reads)
  show "net_cash_flow R s g = (Inl e, s, g1)" by (rule reads)
  show "get_IRR irr R s g = (Inl e, s, g1)" by (rule reads)
  show "get_NPV R s g = (Inl e, s, g1)" by (rule reads)
  show "get_payback_period R s g = (Inl e, s, g1)" by (rule reads)
next
  assume c: "sampled s \<and> cached_total_cash_flow s = Some tcf' \<and> cached_net_cash_flow s = Some ncf'"
  then show "total_cash_flow R s g = (Inr tcf', s, g)" by (simp add: total_cash_flow_cached)
  from c show "net_cash_flow R s g = (Inr ncf', s, g)" by (simp add: net_cash_flow_cached)
  from c show "snd (get_IRR irr R s g) = (s, g)" by (simp add: metrics_state_cached)
  from c show "snd (get_NPV R s g) = (s, g)" by (simp add: metrics_state_cached)
  from c show "snd (get_payback_period R s g) = (s, g)" by (simp add: metrics_state_cached)
qed

lemma sample_gaussian_summary:
  "sample_cash_flow counting gaussian_summary n =
    (None, gaussian_summary\<lparr>cached_total_cash_flow :=
        Some [[[PyFloat (Fl (- 100))]], [[PyFloat (Fl 30)]], [[PyFloat (Fl 30)]]],
      cached_net_cash_flow := Some [PyFloat (Fl (- 100)), PyFloat (Fl 30), PyFloat (Fl 30)],
      sampled := True\<rparr>, n + 3)"
  by (simp add: sampling_defs gaussian_summary_def counting_def upto_rec1)

lemma resample_gaussian_summary:
  "snd (snd (sample_cash_flow counting
     (fst (snd (sample_cash_flow counting gaussian_summary 0))) 3)) = 6"
  by (simp add: sample_gaussian_summary)
     (simp add: sampling_defs gaussian_summary_def counting_def upto_rec1)

lemma sample_pareto_zero_summary:
  "sample_cash_flow counting pareto_zero_summary 0 =
     (Some ZeroDivisionError, pareto_zero_summary, 1)"
  by (simp add: sampling_defs pareto_zero_summary_def counting_def upto_rec1)

theorem lazy_sampling_once_witness:
  "\<not> sampled gaussian_summary
   \<and> sample_cash_flow counting gaussian_summary 0 = (None, (fst (snd (sample_cash_flow counting gaussian_summary 0))), 3)
   \<and> net_cash_flow counting gaussian_summary 0 = (Inr [PyFloat (Fl (- 100)), PyFloat (Fl 30), PyFloat (Fl 30)], (fst (snd (sample_cash_flow counting gaussian_summary 0))), 3)
   \<and> sampled (fst (snd (sample_cash_flow counting gaussian_summary 0)))
   \<and> net_cash_flow counting (fst (snd (sample_cash_flow counting gaussian_summary 0))) 3 = (Inr [PyFloat (Fl (- 100)), PyFloat (Fl 30), PyFloat (Fl 30)], (fst (snd (sample_cash_flow counting gaussian_summary 0))), 3)
   \<and> snd (get_NPV counting (fst (snd (sample_cash_flow counting gaussian_summary 0))) 3) = ((fst (snd (sample_cash_flow counting gaussian_summary 0))), 3)
   \<and> snd (snd (sample_cash_flow counting (fst (snd (sample_cash_flow counting gaussian_summary 0))) 3)) = 6
   \<and> \<not> sampled pareto_zero_summary
   \<and> sample_cash_flow counting pareto_zero_summary 0 =
       (Some ZeroDivisionError, pareto_zero_summary, 1)
   \<and> get_NPV counting pareto_zero_summary 0 = (Inl ZeroDivisionError, pareto_zero_summary, 1)"
proof -
  let ?s1 = "(fst (snd (sample_cash_flow counting gaussian_summary 0)))"
  have fresh: "\<not> sampled gaussian_summary"
    by (simp add: gaussian_summary_def Summary_init_def)
  have ret: "sample_cash_flow counting gaussian_summary 0 = (None, ?s1, 3)"
    by (simp add: sample_gaussian_summary)
  have s: "sampled ?s1" by (simp add: sample_gaussian_summary)
  have t: "cached_total_cash_flow ?s1 =
      Some [[[PyFloat (Fl (- 100))]], [[PyFloat (Fl 30)]], [[PyFloat (Fl 30)]]]"
    by (simp add: sample_gaussian_summary)
  have n: "cached_net_cash_flow ?s1 = Some [PyFloat (Fl (- 100)), PyFloat (Fl 30), PyFloat (Fl 30)]"
    by (simp add: sample_gaussian_summary)
  from lazy_sampling_once [where s = gaussian_summary and R = counting and g = 0
      and ?s1.0 = ?s1 and ?g1.0 = 3, THEN conjunct1, rule_format, OF conjI [OF fresh ret]]
  obtain ncf where "cached_net_cash_flow ?s1 = Some ncf"
    and "net_cash_flow counting gaussian_summary 0 = (Inr ncf, ?s1, 3)"
    by blast
  with n have a: "net_cash_flow counting gaussian_summary 0 = (Inr [PyFloat (Fl (- 100)), PyFloat (Fl 30), PyFloat (Fl 30)], ?s1, 3)"
    by simp
  note again = lazy_sampling_once [where s = ?s1 and R = counting and g = 3,
      THEN conjunct2, THEN conjunct2, rule_format, OF conjI [OF s conjI [OF t n]]]
  from again have b: "net_cash_flow counting ?s1 3 = (Inr [PyFloat (Fl (- 100)), PyFloat (Fl 30), PyFloat (Fl 30)], ?s1, 3)"
    by blast
  from again have c: "snd (get_NPV counting ?s1 3) = (?s1, 3)"
    by blast
  have pfresh: "\<not> sampled pareto_zero_summary"
    by (simp add: pareto_zero_summary_def Summary_init_def)
  from lazy_sampling_once [where s = pareto_zero_summary and R = counting and g = 0
      and e = ZeroDivisionError and ?s1.0 = pareto_zero_summary and ?g1.0 = 1,
      THEN conjunct2, THEN conjunct1, rule_format,
      OF conjI [OF pfresh sample_pareto_zero_summary]]
  have d: "get_NPV counting pareto_zero_summary 0 =
      (Inl ZeroDivisionError, pareto_zero_summary, 1)"
    by blast
  from fresh ret a s b c resample_gaussian_summary pfresh sample_pareto_zero_summary d
  show ?thesis by blast
qed

text \<open>
  The claim C3 as it was stated fails where a draw raises: a summary whose recurring cost
  is a Pareto distribution with \<open>alpha = 0\<close> is not sampled, a read of either property
  raises ZeroDivisionError, and after the read the flag is still false and no cached field
  is set.
\<close>

theorem unsampled_read_raises:
  "\<not> sampled pareto_zero_summary
   \<and> net_cash_flow counting pareto_zero_summary 0 =
       (Inl ZeroDivisionError, pareto_zero_summary, 1)
   \<and> total_cash_flow counting pareto_zero_summary 0 =
       (Inl ZeroDivisionError, pareto_zero_summary, 1)
   \<and> \<not> sampled (fst (snd (net_cash_flow counting pareto_zero_summary 0)))
   \<and> cached_net_cash_flow (fst (snd (net_cash_flow counting pareto_zero_summary 0))) = None
   \<and> cached_total_cash_flow (fst (snd (total_cash_flow counting pareto_zero_summary 0))) = None"
proof -
  have fresh: "\<not> sampled pareto_zero_summary"
    and none: "cached_net_cash_flow pareto_zero_summary = None"
      "cached_total_cash_flow pareto_zero_summary = None"
    by (simp_all add: pareto_zero_summary_def Summary_init_def)
  have n: "net_cash_flow counting pareto_zero_summary 0 =
       (Inl ZeroDivisionError, pareto_zero_summary, 1)"
    using fresh by (simp add: net_cash_flow_def ensure_sampled_def sample_pareto_zero_summary)
  have t: "total_cash_flow counting pareto_zero_summary 0 =
       (Inl ZeroDivisionError, pareto_zero_summary, 1)"
    using fresh by (simp add: total_cash_flow_def ensure_sampled_def sample_pareto_zero_summary)
  show ?thesis unfolding n t using fresh none by simp
qed

section \<open>Assigning a cost\<close>

text \<open>
  Claim C6. Assigning a cost to an item: a distribution is stored as it is; an int or a
  float (a bool is an int for \<open>isinstance\<close>) is stored as the \<open>Constant\<close> of that value,
  an int staying an int, with the interval from 0 to infinity; any other value raises TypeError and the item,
  with the cost stored before, is unchanged. Both setters behave alike.
\<close>

theorem set_cost_checked:
  "set_upfront_cost it (VRandom d) = (None, it\<lparr>upfront_cost := d\<rparr>)
   \<and> set_recurring_cost it (VRandom d) = (None, it\<lparr>recurring_cost := d\<rparr>)
   \<and> set_upfront_cost it (VFloat x) = (None, it\<lparr>upfront_cost := Constant (PyFloat x) (Fl 0) PosInf\<rparr>)
   \<and> set_recurring_cost it (VFloat x) =
       (None, it\<lparr>recurring_cost := Constant (PyFloat x) (Fl 0) PosInf\<rparr>)
   \<and> set_upfront_cost it (VInt n) =
       (None, it\<lparr>upfront_cost := Constant (PyInt n) (Fl 0) PosInf\<rparr>)
   \<and> set_recurring_cost it (VInt n) =
       (None, it\<lparr>recurring_cost := Constant (PyInt n) (Fl 0) PosInf\<rparr>)
   \<and> set_upfront_cost it (VBool b) =
       (None, it\<lparr>upfront_cost := Constant (PyInt (if b then 1 else 0)) (Fl 0) PosInf\<rparr>)
   \<and> set_recurring_cost it (VBool b) =
       (None, it\<lparr>recurring_cost := Constant (PyInt (if b then 1 else 0)) (Fl 0) PosInf\<rparr>)
   \<and> ((\<forall>d'. c \<noteq> VRandom d') \<and> (\<forall>x'. c \<noteq> VFloat x') \<and> (\<forall>n'. c \<noteq> VInt n')
        \<and> (\<forall>b'. c \<noteq> VBool b') \<longrightarrow>
       set_upfront_cost it c = (Some TypeError, it)
       \<and> set_recurring_cost it c = (Some TypeError, it))"
  by (cases c) (simp_all add: set_upfront_cost_def set_recurring_cost_def)

theorem set_cost_checked_witness:
  "set_upfront_cost
     \<lparr>item_name = Some (Lit ''machine''), item_desc = Some (Lit ''''),
      upfront_cost = Pareto (Fl 2) (Fl 0) PosInf, recurring_cost = Constant (PyFloat (Fl 0)) (Fl 0) PosInf\<rparr>
     (VInt 250) =
     (None,
      \<lparr>item_name = Some (Lit ''machine''), item_desc = Some (Lit ''''),
       upfront_cost = Constant (PyInt 250) (Fl 0) PosInf,
       recurring_cost = Constant (PyFloat (Fl 0)) (Fl 0) PosInf\<rparr>)
   \<and> set_upfront_cost
     \<lparr>item_name = Some (Lit ''machine''), item_desc = Some (Lit ''''),
      upfront_cost = Pareto (Fl 2) (Fl 0) PosInf, recurring_cost = Constant (PyFloat (Fl 0)) (Fl 0) PosInf\<rparr>
     (VStr (Lit ''250'')) =
     (Some TypeError,
      \<lparr>item_name = Some (Lit ''machine''), item_desc = Some (Lit ''''),
       upfront_cost = Pareto (Fl 2) (Fl 0) PosInf,
       recurring_cost = Constant (PyFloat (Fl 0)) (Fl 0) PosInf\<rparr>)
   \<and> set_recurring_cost
     \<lparr>item_name = Some (Lit ''machine''), item_desc = Some (Lit ''''),
      upfront_cost = Pareto (Fl 2) (Fl 0) PosInf, recurring_cost = Constant (PyFloat (Fl 0)) (Fl 0) PosInf\<rparr>
     VNone =
     (Some TypeError,
      \<lparr>item_name = Some (Lit ''machine''), item_desc = Some (Lit ''''),
       upfront_cost = Pareto (Fl 2) (Fl 0) PosInf,
       recurring_cost = Constant (PyFloat (Fl 0)) (Fl 0) PosInf\<rparr>)"
proof -
  let ?it = "\<lparr>item_name = Some (Lit ''machine''), item_desc = Some (Lit ''''),
      upfront_cost = Pareto (Fl 2) (Fl 0) PosInf, recurring_cost = Constant (PyFloat (Fl 0)) (Fl 0) PosInf\<rparr>"
  have other: "(\<forall>d'. c \<noteq> VRandom d') \<and> (\<forall>x'. c \<noteq> VFloat x') \<and> (\<forall>n'. c \<noteq> VInt n')
        \<and> (\<forall>b'. c \<noteq> VBool b')" if "c = VStr (Lit ''250'') \<or> c = VNone" for c
    using that by auto
  have "set_upfront_cost ?it (VInt 250) =
      (None, ?it\<lparr>upfront_cost := Constant (PyInt 250) (Fl 0) PosInf\<rparr>)"
    using set_cost_checked [of ?it _ _ 250] by blast
  moreover have "set_upfront_cost ?it (VStr (Lit ''250'')) = (Some TypeError, ?it)"
    using set_cost_checked [of ?it _ _ _ _ "VStr (Lit ''250'')"] other by blast
  moreover have "set_recurring_cost ?it VNone = (Some TypeError, ?it)"
    using set_cost_checked [of ?it _ _ _ _ VNone] other by blast
  ultimately show ?thesis by simp
qed

section \<open>Removing by name\<close>

lemma all_instances_Some: "all_instances (map Some xs) = Inr xs"
  by (induction xs) auto

lemma filter_no_match:
  "set names \<inter> f ` set xs = {} \<Longrightarrow> filter (\<lambda>x. f x \<notin> set names) xs = xs"
  by (induction xs) auto

text \<open>
  Claim C9. \<open>remove_items\<close> returns without raising and leaves in the group exactly the
  items whose name is not among the given names, in their order and with their
  repetitions; the other fields of the group are untouched. When none of the given names
  is the name of an item, the group is unchanged. \<open>remove_groups\<close> does the same to the
  groups of a sheet.
\<close>

theorem remove_by_name:
  "remove_items grp item_names =
     (None, grp\<lparr>items := filter (\<lambda>it. item_name it \<notin> set item_names) (items grp)\<rparr>)
   \<and> remove_groups sh group_names =
     (None, sh\<lparr>groups := filter (\<lambda>gr. group_name gr \<notin> set group_names) (groups sh)\<rparr>)
   \<and> (set item_names \<inter> item_name ` set (items grp) = {} \<longrightarrow>
        remove_items grp item_names = (None, grp))
   \<and> (set group_names \<inter> group_name ` set (groups sh) = {} \<longrightarrow>
        remove_groups sh group_names = (None, sh))"
  by (simp add: remove_items_def set_items_def add_items_def remove_groups_def set_groups_def
      add_groups_def all_instances_Some filter_no_match)

theorem remove_by_name_witness:
  "remove_items three_items [Some (Lit ''lathe'')] =
     (None, three_items\<lparr>items := [named_item ''press'' 20]\<rparr>)
   \<and> set [Some (Lit ''drill''), None] \<inter> item_name ` set (items three_items) = {}
   \<and> remove_items three_items [Some (Lit ''drill''), None] = (None, three_items)
   \<and> set [Some (Lit ''yard'')] \<inter> group_name ` set (groups \<lparr>groups = [three_items]\<rparr>) = {}
   \<and> remove_groups \<lparr>groups = [three_items]\<rparr> [Some (Lit ''yard'')] =
       (None, \<lparr>groups = [three_items]\<rparr>)
   \<and> remove_groups \<lparr>groups = [three_items]\<rparr> [Some (Lit ''plant'')] = (None, \<lparr>groups = []\<rparr>)"
proof -
  have names: "item_name (named_item n u) = Some (Lit n)" for n u
    by (simp add: named_item_def)
  have a: "set [Some (Lit ''drill''), None] \<inter> item_name ` set (items three_items) = {}"
    by (simp add: three_items_def names)
  have b: "set [Some (Lit ''yard'')] \<inter> group_name ` set (groups \<lparr>groups = [three_items]\<rparr>) = {}"
    by (simp add: three_items_def)
  note r1 = remove_by_name [of three_items "[Some (Lit ''lathe'')]" "\<lparr>groups = [three_items]\<rparr>"
      "[Some (Lit ''plant'')]"]
  note r2 = remove_by_name [of three_items "[Some (Lit ''drill''), None]"
      "\<lparr>groups = [three_items]\<rparr>" "[Some (Lit ''yard'')]"]
  have "remove_items three_items [Some (Lit ''lathe'')] =
      (None, three_items\<lparr>items := [named_item ''press'' 20]\<rparr>)"
    using r1 by (simp add: three_items_def names)
  moreover have "remove_groups \<lparr>groups = [three_items]\<rparr> [Some (Lit ''plant'')] =
      (None, \<lparr>groups = []\<rparr>)"
    using r1 by (simp add: three_items_def)
  moreover have "remove_items three_items [Some (Lit ''drill''), None] = (None, three_items)"
    using r2 a by blast
  moreover have "remove_groups \<lparr>groups = [three_items]\<rparr> [Some (Lit ''yard'')] =
      (None, \<lparr>groups = [three_items]\<rparr>)"
    using r2 b by blast
  ultimately show ?thesis using a b by blast
qed

section \<open>Reading and writing documents\<close>

lemmas xml_defs =
  then_do_def find_text_def el_find_def el_findall_def value_or_default_def value_or_empty_def
  pf_eq_def bound_elements_def cost_of_def or_empty_def

lemma bounds_round_trip:
  "value_or_default
     (if Some (value_or_empty a (Fl 0)) = Some (Lit '''') then None
      else Some (value_or_empty a (Fl 0))) (Fl 0) = Inr a"
  "value_or_default
     (if Some (value_or_empty b PosInf) = Some (Lit '''') then None
      else Some (value_or_empty b PosInf)) PosInf = Inr b"
  by (auto simp: value_or_default_def value_or_empty_def pf_eq_def)

text \<open>
  A distribution written to a file and read back is the same distribution, a bound equal
  to its default being written as an empty text and read as the default; the value of a
  \<open>Constant\<close> is read as a float.
\<close>

lemma distribution_round_trip:
  "create_from_etree_element (written_and_parsed (generate_etree_element (Gaussian m s a b))) =
     Inr (Some (Gaussian m s a b))"
  "create_from_etree_element (written_and_parsed (generate_etree_element (Pareto al a b))) =
     Inr (Some (Pareto al a b))"
  "create_from_etree_element (written_and_parsed (generate_etree_element (Constant v a b))) =
     Inr (Some (Constant (PyFloat (to_float v)) a b))"
proof -
  note b = bounds_round_trip [of a] bounds_round_trip [of b]
  show "create_from_etree_element
      (written_and_parsed (generate_etree_element (Gaussian m s a b))) =
     Inr (Some (Gaussian m s a b))"
    using b
    by (simp add: create_from_etree_element_def Gaussian_create_from_etree_element_def
        then_do_def find_text_def el_find_def bound_elements_def)
  show "create_from_etree_element
      (written_and_parsed (generate_etree_element (Pareto al a b))) =
     Inr (Some (Pareto al a b))"
    using b
    by (simp add: create_from_etree_element_def Pareto_create_from_etree_element_def
        then_do_def find_text_def el_find_def bound_elements_def)
  show "create_from_etree_element
      (written_and_parsed (generate_etree_element (Constant v a b))) =
     Inr (Some (Constant (PyFloat (to_float v)) a b))"
    using b
    by (cases v)
       (simp_all add: create_from_etree_element_def Constant_create_from_etree_element_def
        then_do_def find_text_def el_find_def bound_elements_def)
qed

lemma then_do_Inr: "then_do m f = Inr y \<Longrightarrow> \<exists>x. m = Inr x \<and> f x = Inr y"
  by (cases m) (simp_all add: then_do_def)

text \<open>Whatever the document holds, a summary read from it has 10000 iterations.\<close>

lemma created_summary_iterations:
  assumes "Summary_create_from_etree_element e = Inr s"
  shows "iterations s = 10000"
proof -
  from assms obtain sh rate yrs where "s = Summary_init sh rate yrs 10000"
    unfolding Summary_create_from_etree_element_def
    by (auto dest!: then_do_Inr)
  then show ?thesis by (simp add: Summary_init_def)
qed

text \<open>
  Claim C4 (round trip of serialisation), at a summary with 500 iterations: the document
  written from it carries \<open>Iterations\<close> 500, and the summary read back from that
  document is the same in the sheet, the interest rate and the years but has the
  constructor's default of 10000 iterations, because
  \<open>Summary.create_from_etree_element\<close> never reads the \<open>Iterations\<close> element that
  \<open>generate_etree_element\<close> writes.
\<close>

theorem summary_round_trip_loses_iterations:
  "iterations summary_500 = 500
   \<and> find_text (written_and_parsed (Summary_generate_etree_element summary_500))
       ''Iterations'' = Inr (Some (StrInt 500))
   \<and> Summary_create_from_etree_element
       (written_and_parsed (Summary_generate_etree_element summary_500)) =
       Inr (summary_500\<lparr>iterations := 10000\<rparr>)"
proof -
  have item: "CashFlowItem_create_from_etree_element
      (written_and_parsed (CashFlowItem_generate_etree_element it)) =
      Inr it"
    if "it = \<lparr>item_name = Some (Lit ''machine''), item_desc = Some (Lit ''''),
          upfront_cost = Constant (PyFloat (Fl (- 100))) (Fl 0) PosInf,
          recurring_cost = Constant (PyFloat (Fl 30)) (Fl 0) PosInf\<rparr>" for it
    using distribution_round_trip(3) [of "PyFloat (Fl (- 100))" "Fl 0" PosInf]
      distribution_round_trip(3) [of "PyFloat (Fl 30)" "Fl 0" PosInf]
    by (simp add: that CashFlowItem_create_from_etree_element_def
        CashFlowItem_generate_etree_element_def then_do_def find_text_def el_find_def
        cost_of_def or_empty_def CashFlowItem_init_def)
  have grp: "CashFlowGroup_create_from_etree_element
      (written_and_parsed (CashFlowGroup_generate_etree_element g)) = Inr g"
    if "g = \<lparr>group_name = Some (Lit ''plant''), group_desc = Some (Lit ''''),
        items = [\<lparr>item_name = Some (Lit ''machine''), item_desc = Some (Lit ''''),
          upfront_cost = Constant (PyFloat (Fl (- 100))) (Fl 0) PosInf,
          recurring_cost = Constant (PyFloat (Fl 30)) (Fl 0) PosInf\<rparr>]\<rparr>" for g
    using item
    by (simp add: that CashFlowGroup_create_from_etree_element_def
        CashFlowGroup_generate_etree_element_def then_do_def find_text_def el_find_def
        el_findall_def or_empty_def CashFlowGroup_init_def set_items_def add_items_def
        CashFlowItem_generate_etree_element_def)
  have sheet: "CashFlowSheet_create_from_etree_element
      (written_and_parsed (CashFlowSheet_generate_etree_element (constant_sheet (- 100) 30))) =
      Inr (constant_sheet (- 100) 30)"
    using grp
    by (simp add: constant_sheet_def one_item_sheet_def CashFlowSheet_create_from_etree_element_def
        CashFlowSheet_generate_etree_element_def then_do_def el_findall_def
        CashFlowSheet_init_def set_groups_def add_groups_def
        CashFlowGroup_generate_etree_element_def)
  have "Summary_create_from_etree_element
       (written_and_parsed (Summary_generate_etree_element summary_500)) =
       Inr (summary_500\<lparr>iterations := 10000\<rparr>)"
    using sheet
    by (simp add: summary_500_def Summary_init_def Summary_create_from_etree_element_def
        Summary_generate_etree_element_def then_do_def find_text_def el_find_def
        CashFlowSheet_generate_etree_element_def)
  moreover have "find_text (written_and_parsed (Summary_generate_etree_element summary_500))
       ''Iterations'' = Inr (Some (StrInt 500))"
    by (simp add: summary_500_def Summary_init_def Summary_generate_etree_element_def
        find_text_def el_find_def)
  moreover have "iterations summary_500 = 500"
    by (simp add: summary_500_def Summary_init_def)
  ultimately show ?thesis by simp
qed

text \<open>
  Claim C5 (an unrecognised tag is a hard error), at an element tagged \<open>Uniform\<close>: the
  dispatch \<open>create_from_etree_element\<close> raises nothing and returns \<open>None\<close>. An item whose
  cost element holds only that element is rejected afterwards, by the type check of the
  constructor; an item whose cost element holds that element followed by a \<open>Constant\<close> is
  read without any error, the unrecognised element being dropped.
\<close>

theorem unrecognised_tag_returns_None:
  "create_from_etree_element uniform_element = Inr None
   \<and> CashFlowItem_create_from_etree_element
       (Element ''CashFlowItem'' None
          [Element ''name'' (Some (Lit ''machine'')) [], Element ''desc'' None [],
           Element ''upfrontCost'' None [uniform_element],
           Element ''recurringCost'' None
             [generate_etree_element (Constant (PyFloat (Fl 30)) (Fl 1) (Fl 5))]]) =
       Inl TypeError
   \<and> CashFlowItem_create_from_etree_element
       (Element ''CashFlowItem'' None
          [Element ''name'' (Some (Lit ''machine'')) [], Element ''desc'' None [],
           Element ''upfrontCost'' None
             [uniform_element,
              generate_etree_element (Constant (PyFloat (Fl (- 100))) (Fl 1) (Fl 5))],
           Element ''recurringCost'' None
             [generate_etree_element (Constant (PyFloat (Fl 30)) (Fl 1) (Fl 5))]]) =
       Inr \<lparr>item_name = Some (Lit ''machine''), item_desc = Some (Lit ''''),
            upfront_cost = Constant (PyFloat (Fl (- 100))) (Fl 1) (Fl 5),
            recurring_cost = Constant (PyFloat (Fl 30)) (Fl 1) (Fl 5)\<rparr>"
proof -
  have u: "create_from_etree_element uniform_element = Inr None"
    by (simp add: create_from_etree_element_def uniform_element_def)
  have c: "create_from_etree_element (generate_etree_element (Constant (PyFloat (Fl x)) (Fl 1) (Fl 5)))
      = Inr (Some (Constant (PyFloat (Fl x)) (Fl 1) (Fl 5)))" for x
    by (simp add: create_from_etree_element_def Constant_create_from_etree_element_def xml_defs)
  show ?thesis
    using u c [of 30] c [of "- 100"]
    by (simp add: CashFlowItem_create_from_etree_element_def then_do_def find_text_def
        el_find_def cost_of_def or_empty_def CashFlowItem_init_def)
qed

end
